theory Spec2Isabelle
  imports Complex_Main "HOL-Library.Sublist" "HOL-Library.AList" "HOL-Library.Word"
begin

section \<open>JavaScript strings, values, maps and sets\<close>

text \<open>
  A JavaScript string is a sequence of UTF-16 code units. The Japanese literals of the
  program are written as their code units; ASCII literals go through \<open>js\<close>.
\<close>

type_synonym jschar = "16 word"
type_synonym jsstring = "jschar list"

definition js :: "string \<Rightarrow> jsstring" where
  "js s = map of_char s"

text \<open>
  \<open>String.prototype.toLowerCase\<close>, on the Basic Latin block. Kana and kanji, the
  other characters of the program's vocabulary, have no case; letters of other cased
  scripts are left as they are by this model. No theorem below that is stated for every
  string unfolds this definition.
\<close>

definition lowerChar :: "jschar \<Rightarrow> jschar" where
  "lowerChar c = (if 0x41 \<le> c \<and> c \<le> 0x5A then c + 0x20 else c)"

definition toLowerCase :: "jsstring \<Rightarrow> jsstring" where
  "toLowerCase s = map lowerChar s"

text \<open>\<open>String.prototype.trim\<close>: white space and line terminators of ECMAScript.\<close>

definition isWhiteSpace :: "jschar \<Rightarrow> bool" where
  "isWhiteSpace c =
     (c \<in> set [0x09, 0x0A, 0x0B, 0x0C, 0x0D, 0x20, 0xA0, 0x1680, 0x2028, 0x2029,
               0x202F, 0x205F, 0x3000, 0xFEFF]
      \<or> (0x2000 \<le> c \<and> c \<le> 0x200A))"

definition trim :: "jsstring \<Rightarrow> jsstring" where
  "trim s = rev (dropWhile isWhiteSpace (rev (dropWhile isWhiteSpace s)))"

text \<open>\<open>s.includes(p)\<close>: \<open>p\<close> occurs in \<open>s\<close> as a contiguous run.\<close>

fun js_includes :: "jsstring \<Rightarrow> jsstring \<Rightarrow> bool" where
  "js_includes [] p = (p = [])"
| "js_includes (c # cs) p = (prefix p (c # cs) \<or> js_includes cs p)"

text \<open>\<open>s.split(sep)\<close> for a separator of one code unit.\<close>

fun js_split :: "jschar \<Rightarrow> jsstring \<Rightarrow> jsstring list" where
  "js_split sep [] = [[]]"
| "js_split sep (c # cs) =
     (if c = sep then [] # js_split sep cs
      else (case js_split sep cs of
              [] \<Rightarrow> [[c]]
            | piece # pieces \<Rightarrow> (c # piece) # pieces))"

text \<open>\<open>s.replace(pat, rep)\<close> with a string pattern: the first occurrence only.\<close>

fun js_replace :: "jsstring \<Rightarrow> jsstring \<Rightarrow> jsstring \<Rightarrow> jsstring" where
  "js_replace pat rep [] = (if pat = [] then rep else [])"
| "js_replace pat rep (c # cs) =
     (if prefix pat (c # cs) then rep @ drop (length pat) (c # cs)
      else c # js_replace pat rep cs)"

text \<open>
  The values a command slot can hold: a string, \<open>undefined\<close> (what \<open>commands[0]\<close> is on
  an empty array) and \<open>null\<close> (what \<open>JSON.stringify\<close> writes for \<open>undefined\<close> inside an
  array).
\<close>

datatype jsval = Undefined | Null | Str jsstring

definition truthy :: "jsval \<Rightarrow> bool" where
  "truthy v = (case v of Str s \<Rightarrow> s \<noteq> [] | _ \<Rightarrow> False)"

text \<open>
  A \<open>Map\<close> is the list of its entries in insertion order, a \<open>Set\<close> the list of its
  elements in insertion order. \<open>Map.prototype.set\<close> overwrites the value of a present
  key where it stands and appends a new key; \<open>Set.prototype.add\<close> appends an absent
  element.
\<close>

definition Map_set :: "('k \<times> 'v) list \<Rightarrow> 'k \<Rightarrow> 'v \<Rightarrow> ('k \<times> 'v) list" where
  "Map_set m k v = AList.update k v m"

definition Set_add :: "'a list \<Rightarrow> 'a \<Rightarrow> 'a list" where
  "Set_add xs x = (if x \<in> set xs then xs else xs @ [x])"

definition Set_delete :: "'a list \<Rightarrow> 'a \<Rightarrow> 'a list" where
  "Set_delete xs x = removeAll x xs"

definition new_Set :: "'a list \<Rightarrow> 'a list" where
  "new_Set xs = foldl Set_add [] xs"

definition new_Map :: "('k \<times> 'v) list \<Rightarrow> ('k \<times> 'v) list" where
  "new_Map es = foldl (\<lambda>m (k, v). Map_set m k v) [] es"

section \<open>Regular expressions of the program\<close>

text \<open>
  Every pattern of \<open>naturalLanguagePatterns\<close> is a sequence of literals and \<open>.*\<close>;
  \<open>.\<close> matches any code unit but a line terminator. \<open>rx_match\<close> matches at the start
  of the string, \<open>rx_test\<close> is \<open>RegExp.prototype.test\<close> (a match starting anywhere).
\<close>

datatype rx = Lit jsstring | DotStar

type_synonym regex = "rx list"

definition isLineTerminator :: "jschar \<Rightarrow> bool" where
  "isLineTerminator c = (c \<in> set [0x0A, 0x0D, 0x2028, 0x2029])"

fun rx_match :: "regex \<Rightarrow> jsstring \<Rightarrow> bool" where
  "rx_match [] s = True"
| "rx_match (Lit p # r) s = (prefix p s \<and> rx_match r (drop (length p) s))"
| "rx_match (DotStar # r) [] = rx_match r []"
| "rx_match (DotStar # r) (c # cs) =
     (rx_match r (c # cs) \<or> (\<not> isLineTerminator c \<and> rx_match (DotStar # r) cs))"

fun rx_test :: "regex \<Rightarrow> jsstring \<Rightarrow> bool" where
  "rx_test r [] = rx_match r []"
| "rx_test r (c # cs) = (rx_match r (c # cs) \<or> rx_test r cs)"

section \<open>The keyword table and the paraphrase patterns\<close>

text \<open>
  \<open>VoiceRecognition.commandMap\<close> (voice.js), in the order of \<open>Object.entries\<close>: kougeki,
  ko-u-ge-ki, atakku, tatakau (kana and kanji) for attack; bougyo, bo-u-gyo, difensu,
  mamoru (kana and kanji), shiirudo for defend; tettai, te-t-ta-i, nigeru (kana and
  kanji), hiku (kana and kanji) for retreat; joukyou, jo-u-kyo-u, repooto, houkoku (kana
  and kanji) for status.
\<close>

definition commandMap :: "(jsstring \<times> jsstring) list" where
  "commandMap =
    [([0x653B, 0x6483], js ''attack''),
     ([0x3053, 0x3046, 0x3052, 0x304D], js ''attack''),
     ([0x30A2, 0x30BF, 0x30C3, 0x30AF], js ''attack''),
     ([0x305F, 0x305F, 0x304B, 0x3046], js ''attack''),
     ([0x6226, 0x3046], js ''attack''),
     ([0x9632, 0x5FA1], js ''defend''),
     ([0x307C, 0x3046, 0x304E, 0x3087], js ''defend''),
     ([0x30C7, 0x30A3, 0x30D5, 0x30A7, 0x30F3, 0x30B9], js ''defend''),
     ([0x307E, 0x3082, 0x308B], js ''defend''),
     ([0x5B88, 0x308B], js ''defend''),
     ([0x30B7, 0x30FC, 0x30EB, 0x30C9], js ''defend''),
     ([0x64A4, 0x9000], js ''retreat''),
     ([0x3066, 0x3063, 0x305F, 0x3044], js ''retreat''),
     ([0x306B, 0x3052, 0x308B], js ''retreat''),
     ([0x9003, 0x3052, 0x308B], js ''retreat''),
     ([0x3072, 0x304F], js ''retreat''),
     ([0x5F15, 0x304F], js ''retreat''),
     ([0x72B6, 0x6CC1], js ''status''),
     ([0x3058, 0x3087, 0x3046, 0x304D, 0x3087, 0x3046], js ''status''),
     ([0x30EC, 0x30DD, 0x30FC, 0x30C8], js ''status''),
     ([0x307B, 0x3046, 0x3053, 0x304F], js ''status''),
     ([0x5831, 0x544A], js ''status'')]"

text \<open>
  \<open>AdvancedVoiceRecognition.naturalLanguagePatterns\<close> after
  \<open>initNaturalLanguagePatterns\<close> (mic-test.js), in insertion order. The first pattern of
  \<open>combo_attack_defend\<close> is kougeki \<open>.*\<close> bougyo (U+653B U+6483, U+9632 U+5FA1).
\<close>

definition naturalLanguagePatterns :: "(jsstring \<times> regex list) list" where
  "naturalLanguagePatterns =
    [(js ''attack'',
       [[Lit [0x6575], DotStar, Lit [0x3084, 0x3063, 0x3064, 0x3051]],
        [Lit [0x6575], DotStar, Lit [0x5012]],
        [Lit [0x6575], DotStar, Lit [0x6483, 0x7834]],
        [Lit [0x653B, 0x6483], DotStar, Lit [0x3057, 0x3066]],
        [Lit [0x3084, 0x3063, 0x3064, 0x3051, 0x3066]],
        [Lit [0x5012, 0x3057, 0x3066]],
        [Lit [0x6483, 0x3063, 0x3066]],
        [Lit [0x6226, 0x3063, 0x3066]],
        [Lit [0x6575], DotStar, Lit [0x6D88, 0x3057, 0x3066]],
        [Lit [0x6575], DotStar, Lit [0x6392, 0x9664]],
        [Lit [0x6575, 0x304C], DotStar, Lit [0x3046, 0x3056, 0x3044]],
        [Lit [0x6575], DotStar, Lit [0x306A, 0x3093, 0x3068, 0x304B]]]),
     (js ''defend'',
       [[Lit [0x5B88, 0x3063, 0x3066]],
        [Lit [0x9632, 0x3044, 0x3067]],
        [Lit [0x30B7, 0x30FC, 0x30EB, 0x30C9]],
        [Lit [0x30D0, 0x30EA, 0x30A2]],
        [Lit [0x9632, 0x885B], DotStar, Lit [0x5F37, 0x5316]],
        [Lit [0x56DE, 0x5FA9], DotStar, Lit [0x3057, 0x3066]],
        [Lit [0x6CBB, 0x3057, 0x3066]],
        [Lit [0x76F4, 0x3057, 0x3066]],
        [Lit [0x7ACB, 0x3066, 0x76F4]],
        [Lit [0x6301, 0x3061, 0x3053, 0x305F, 0x3048]],
        [Lit [0x8010, 0x3048]]]),
     (js ''retreat'',
       [[Lit [0x9003, 0x3052]],
        [Lit [0x9000, 0x907F]],
        [Lit [0x4E0B, 0x304C, 0x3063, 0x3066]],
        [Lit [0x5F15, 0x3044, 0x3066]],
        [Lit [0x907F, 0x96E3]],
        [Lit [0x64A4, 0x9000], DotStar, Lit [0x3057, 0x3066]],
        [Lit [0x5371, 0x967A], DotStar, Lit [0x3060, 0x304B, 0x3089]],
        [Lit [0x3084, 0x3070, 0x3044]],
        [Lit [0x307E, 0x305A, 0x3044]],
        [Lit [0x7121, 0x7406]],
        [Lit [0x53B3, 0x3057, 0x3044]]]),
     (js ''status'',
       [[Lit [0x3069, 0x3046, 0x306A, 0x3063, 0x3066]],
        [Lit [0x72B6, 0x6CC1], DotStar, Lit [0x6559, 0x3048, 0x3066]],
        [Lit [0x4ECA], DotStar, Lit [0x3069, 0x3046]],
        [Lit [0x4F55, 0x304C], DotStar, Lit [0x8D77, 0x304D, 0x3066]],
        [Lit [0x73FE, 0x5728], DotStar, Lit [0x72B6, 0x6CC1]],
        [Lit [0x30EC, 0x30DD, 0x30FC, 0x30C8]],
        [Lit [0x5831, 0x544A], DotStar, Lit [0x3057, 0x3066]],
        [Lit [0x78BA, 0x8A8D]],
        [Lit [0x30C1, 0x30A7, 0x30C3, 0x30AF]]]),
     (js ''combo_attack_defend'',
       [[Lit [0x653B, 0x6483], DotStar, Lit [0x9632, 0x5FA1]],
        [Lit [0x653B, 0x6483], DotStar, Lit [0x5B88]],
        [Lit [0x3084, 0x3063, 0x3064, 0x3051], DotStar, Lit [0x5B88]],
        [Lit [0x6483, 0x7834], DotStar, Lit [0x9632, 0x5FA1]]]),
     (js ''combo_defend_attack'',
       [[Lit [0x9632, 0x5FA1], DotStar, Lit [0x653B, 0x6483]],
        [Lit [0x5B88], DotStar, Lit [0x653B, 0x6483]],
        [Lit [0x56DE, 0x5FA9], DotStar, Lit [0x653B, 0x6483]],
        [Lit [0x7ACB, 0x3066, 0x76F4], DotStar, Lit [0x653B, 0x6483]]])]"

section \<open>The learning store of AdvancedVoiceRecognition (mic-test.js)\<close>

text \<open>
  The record \<open>saveUserLearning\<close> writes under the key \<open>voiceCommanderLearning\<close>. The
  store holds its JSON text; the model holds the tree that text denotes
  (\<open>JSON.parse\<close> after \<open>JSON.stringify\<close> gives back a tree of arrays, strings and
  numbers unchanged, and turns \<open>undefined\<close> inside an array into \<open>null\<close>).
\<close>

record learningData =
  ld_userPatterns :: "(jsval \<times> jsstring list) list"
  ld_learnedCommands :: "(jsstring \<times> jsval) list"
  ld_timestamp :: nat

text \<open>
  \<open>userPatterns\<close>: the candidate phrase set of each command. \<open>learnedCommands\<close>: the
  learned patterns. \<open>localStorage\<close>: the stored item, \<open>None\<close> when absent.
  \<open>storageAvailable\<close>: whether \<open>getItem\<close> and \<open>setItem\<close> succeed; they throw
  otherwise, and both callers catch and log. \<open>clock\<close>: \<open>Date.now()\<close>.
  \<open>onUserLearning\<close>: whether that callback has been set, which the constructor does
  not do. \<open>userLearningLog\<close>: the calls made to it.
\<close>

record learning =
  userPatterns :: "(jsval \<times> jsstring list) list"
  learnedCommands :: "(jsstring \<times> jsval) list"
  localStorage :: "learningData option"
  storageAvailable :: bool
  clock :: nat
  onUserLearning :: bool
  userLearningLog :: "(jsstring \<times> jsstring \<times> rat) list"

definition emptyLearning :: learning where
  "emptyLearning =
     \<lparr>userPatterns = [], learnedCommands = [], localStorage = None,
      storageAvailable = True, clock = 0, onUserLearning = False, userLearningLog = []\<rparr>"

definition jsonValue :: "jsval \<Rightarrow> jsval" where
  "jsonValue v = (case v of Undefined \<Rightarrow> Null | _ \<Rightarrow> v)"

definition saveUserLearning :: "learning \<Rightarrow> learning" where
  "saveUserLearning s =
     (if storageAvailable s
      then s\<lparr>localStorage := Some
              \<lparr>ld_userPatterns =
                 map (\<lambda>(cmd, patterns). (jsonValue cmd, patterns)) (userPatterns s),
               ld_learnedCommands =
                 map (\<lambda>(pattern, cmd). (pattern, jsonValue cmd)) (learnedCommands s),
               ld_timestamp = clock s\<rparr>\<rparr>
      else s)"

definition loadUserLearning :: "learning \<Rightarrow> learning" where
  "loadUserLearning s =
     (if \<not> storageAvailable s then s
      else (case localStorage s of
              None \<Rightarrow> s
            | Some learningData \<Rightarrow>
                s\<lparr>userPatterns :=
                    new_Map (map (\<lambda>(cmd, patterns). (cmd, new_Set patterns))
                               (ld_userPatterns learningData)),
                  learnedCommands := new_Map (ld_learnedCommands learningData)\<rparr>))"

text \<open>
  \<open>learnSuccessfulPattern\<close>: the candidate set of the command is created when absent,
  the key is added to it, and when the set then holds three phrases or more the key is
  written to the learned patterns and the store is saved.
\<close>

definition learnSuccessfulPattern :: "learning \<Rightarrow> jsstring \<Rightarrow> jsstring list \<Rightarrow> learning" where
  "learnSuccessfulPattern s transcript commands =
     (let key = trim (toLowerCase transcript);
          command = (case commands of [] \<Rightarrow> Undefined | c # _ \<Rightarrow> Str c);
          patterns = Set_add (case map_of (userPatterns s) command of
                                None \<Rightarrow> []
                              | Some ps \<Rightarrow> ps) key;
          s1 = s\<lparr>userPatterns := Map_set (userPatterns s) command patterns\<rparr>
      in if length patterns \<ge> 3
         then saveUserLearning
                (s1\<lparr>learnedCommands := Map_set (learnedCommands s1) key command\<rparr>)
         else s1)"

definition addLearningPattern :: "learning \<Rightarrow> jsstring \<Rightarrow> jsstring \<Rightarrow> rat \<Rightarrow> learning" where
  "addLearningPattern s originalText command confidence =
     (let s1 = learnSuccessfulPattern s originalText [command]
      in if onUserLearning s1
         then s1\<lparr>userLearningLog := userLearningLog s1 @ [(originalText, command, confidence)]\<rparr>
         else s1)"

definition addCorrectionPattern ::
  "learning \<Rightarrow> jsstring \<Rightarrow> jsstring \<Rightarrow> jsstring \<Rightarrow> jsstring \<Rightarrow> learning" where
  "addCorrectionPattern s originalText wrongCommand correctedText correctCommand =
     (let s1 = s\<lparr>userPatterns :=
                   map (\<lambda>(cmd, patterns).
                          (cmd, Set_delete patterns (trim (toLowerCase originalText))))
                       (userPatterns s)\<rparr>
      in addLearningPattern s1 correctedText correctCommand 1)"

section \<open>The pattern matcher of AdvancedVoiceRecognition (mic-test.js)\<close>

fun checkLearnedPatterns :: "(jsstring \<times> jsval) list \<Rightarrow> jsstring \<Rightarrow> jsval" where
  "checkLearnedPatterns [] transcript = Null"
| "checkLearnedPatterns ((pattern, command) # rest) transcript =
     (if js_includes (toLowerCase transcript) (toLowerCase pattern) then command
      else checkLearnedPatterns rest transcript)"

text \<open>The loop over the \<open>combo_\<close> entries: the first entry with a matching pattern.\<close>

fun comboCheck :: "(jsstring \<times> regex list) list \<Rightarrow> jsstring \<Rightarrow> jsstring list option" where
  "comboCheck [] lowerTranscript = None"
| "comboCheck ((combo, patterns) # rest) lowerTranscript =
     (if prefix (js ''combo_'') combo \<and> list_ex (\<lambda>pattern. rx_test pattern lowerTranscript) patterns
      then Some (js_split (of_char CHR ''_'') (js_replace (js ''combo_'') [] combo))
      else comboCheck rest lowerTranscript)"

text \<open>The loop over the keyword table: every command whose keyword occurs, once.\<close>

definition keywordCheck :: "(jsstring \<times> jsstring) list \<Rightarrow> jsstring \<Rightarrow> jsstring list" where
  "keywordCheck table lowerTranscript =
     foldl (\<lambda>commands (keyword, command).
              if js_includes lowerTranscript (toLowerCase keyword) \<and> command \<notin> set commands
              then commands @ [command] else commands)
           [] table"

text \<open>
  \<open>parseAdvancedCommand\<close>. A learned command is pushed when it is truthy, which of the
  values of \<open>jsval\<close> only a non-empty string is.
\<close>

definition parseAdvancedCommand :: "learning \<Rightarrow> jsstring \<Rightarrow> jsstring list" where
  "parseAdvancedCommand s transcript =
     (let lowerTranscript = toLowerCase transcript;
          learnedCommand = checkLearnedPatterns (learnedCommands s) transcript;
          unlearned = (case comboCheck naturalLanguagePatterns lowerTranscript of
                         Some commandPair \<Rightarrow> commandPair
                       | None \<Rightarrow> keywordCheck commandMap lowerTranscript)
      in if truthy learnedCommand
         then (case learnedCommand of Str c \<Rightarrow> [c] | _ \<Rightarrow> unlearned)
         else unlearned)"

text \<open>
  The phrases recorded for a command, and the representation invariant of the store:
  the keys of a \<open>Map\<close> and the elements of a \<open>Set\<close> are unique, and every command is a
  value the callers pass (none is \<open>undefined\<close>: every call site of
  \<open>learnSuccessfulPattern\<close> passes an array with a first element).
\<close>

definition phrasesOf :: "learning \<Rightarrow> jsval \<Rightarrow> jsstring set" where
  "phrasesOf s cmd = (case map_of (userPatterns s) cmd of None \<Rightarrow> {} | Some ps \<Rightarrow> set ps)"

definition wf_learning :: "learning \<Rightarrow> bool" where
  "wf_learning s =
     (distinct (map fst (userPatterns s))
      \<and> list_all (\<lambda>(cmd, patterns). cmd \<noteq> Undefined \<and> distinct patterns) (userPatterns s)
      \<and> distinct (map fst (learnedCommands s))
      \<and> list_all (\<lambda>(pattern, cmd). cmd \<noteq> Undefined) (learnedCommands s))"

section \<open>The confirmation system (voice-recognition-engine.js)\<close>

text \<open>
  What a call can end in: a returned value, or a thrown \<open>TypeError\<close> (the call of a
  method the receiver does not have). The state reached is kept in both cases.
\<close>

datatype error = TypeError

datatype 'a outcome = Returns 'a | Throws error

text \<open>
  The spoken messages: ninshiki ga machigatte imashita ("the recognition was wrong"),
  mou ichido okikase kudasai ("please say it again"), kakunin ga taimuauto shimashita
  ("the confirmation timed out"), the prompt to answer hai or iie or to say the right
  command, and the tail of the request, ", de yoroshii desu ka?".
\<close>

definition msg_wrong_recognition :: jsstring where
  "msg_wrong_recognition =
     [0x8A8D, 0x8B58, 0x304C, 0x9593, 0x9055, 0x3063, 0x3066, 0x3044, 0x307E, 0x3057, 0x305F]"

definition msg_please_repeat :: jsstring where
  "msg_please_repeat =
     [0x3082, 0x3046, 0x4E00, 0x5EA6, 0x304A, 0x805E, 0x304B, 0x305B, 0x304F, 0x3060,
      0x3055, 0x3044]"

definition msg_timed_out :: jsstring where
  "msg_timed_out =
     [0x78BA, 0x8A8D, 0x304C, 0x30BF, 0x30A4, 0x30E0, 0x30A2, 0x30A6, 0x30C8, 0x3057,
      0x307E, 0x3057, 0x305F]"

definition msg_answer_yes_or_no :: jsstring where
  "msg_answer_yes_or_no =
     [0x300C, 0x306F, 0x3044, 0x300D, 0x300C, 0x3044, 0x3044, 0x3048, 0x300D, 0x3067,
      0x304A, 0x7B54, 0x3048, 0x3044, 0x305F, 0x3060, 0x304F, 0x304B, 0x3001, 0x6B63,
      0x3057, 0x3044, 0x30B3, 0x30DE, 0x30F3, 0x30C9, 0x3092, 0x304A, 0x805E, 0x304B,
      0x305B, 0x304F, 0x3060, 0x3055, 0x3044]"

definition msg_is_that_right :: jsstring where
  "msg_is_that_right =
     [0x3001, 0x3067, 0x3088, 0x308D, 0x3057, 0x3044, 0x3067, 0x3059, 0x304B, 0xFF1F]"

text \<open>
  What the system does to its surroundings, in the order it does it: the overlay, the
  audio manager, the two callbacks of a pending confirmation, and the two learning
  methods of the recogniser it was constructed with.
\<close>

datatype effect =
    ShowConfirmationUI
  | HideConfirmationUI
  | SpeakAfter nat jsstring
  | SpeakAsSystem jsstring
  | PlaySound jsstring rat
  | OnConfirmed jsstring jsstring
  | OnRejected jsstring jsstring
  | AddLearningPattern jsstring jsstring rat
  | AddCorrectionPattern jsstring jsstring jsstring jsstring

text \<open>
  \<open>pendingConfirmation\<close>. The callbacks are values of the caller; the system only
  tests whether each was given and calls it.
\<close>

record pending =
  p_command :: jsstring
  p_originalText :: jsstring
  p_confidence :: rat
  p_onConfirmed :: bool
  p_onRejected :: bool
  p_timestamp :: nat

text \<open>
  The fields of \<open>ConfirmationSystem\<close>, with the part of the event loop it uses:
  \<open>timers\<close> are the timeouts it has set that have neither fired nor been cleared, each
  with its handle and the time it is due; \<open>now\<close> is the clock in milliseconds. A timer
  handle is a positive integer, so a stored handle is truthy. Confidence values are
  only compared, and are rationals here.
\<close>

record confirmation =
  pendingConfirmation :: "pending option"
  confirmationTimeout :: "nat option"
  confidenceThreshold :: rat
  timers :: "(nat \<times> nat) list"
  nextHandle :: nat
  now :: nat
  effects :: "effect list"

text \<open>
  The recogniser handed to the constructor, as far as the system calls it:
  \<open>parseCommand\<close> is \<open>None\<close> when the object has no such method.
\<close>

record host =
  parseCommand :: "(jsstring \<Rightarrow> jsval) option"
  hasAddLearningPattern :: bool
  hasAddCorrectionPattern :: bool

definition newConfirmationSystem :: confirmation where
  "newConfirmationSystem =
     \<lparr>pendingConfirmation = None, confirmationTimeout = None, confidenceThreshold = 6 / 10,
      timers = [], nextHandle = 1, now = 0, effects = []\<rparr>"

definition emit :: "effect \<Rightarrow> confirmation \<Rightarrow> confirmation" where
  "emit e s = s\<lparr>effects := effects s @ [e]\<rparr>"

text \<open>\<open>this.confirmationTimeout = setTimeout(..., delay)\<close> and \<open>clearTimeout\<close>.\<close>

definition setTimeout :: "nat \<Rightarrow> confirmation \<Rightarrow> confirmation" where
  "setTimeout delay s =
     s\<lparr>timers := timers s @ [(nextHandle s, now s + delay)],
       confirmationTimeout := Some (nextHandle s),
       nextHandle := Suc (nextHandle s)\<rparr>"

definition clearTimeout :: "nat \<Rightarrow> confirmation \<Rightarrow> confirmation" where
  "clearTimeout h s = s\<lparr>timers := filter (\<lambda>(h', due). h' \<noteq> h) (timers s)\<rparr>"

definition criticalCommands :: "jsstring list" where
  "criticalCommands = [[0x64A4, 0x9000], js ''retreat'']"

definition shouldConfirm :: "confirmation \<Rightarrow> jsstring \<Rightarrow> jsstring \<Rightarrow> rat \<Rightarrow> bool" where
  "shouldConfirm s command originalText confidence =
     (if confidence < confidenceThreshold s then True
      else if list_ex (\<lambda>cmd. js_includes (toLowerCase command) (toLowerCase cmd)) criticalCommands
      then confidence < 8 / 10
      else if length (js_split 0x20 originalText) > 3 \<and> confidence < 75 / 100 then True
      else False)"

definition clearPendingConfirmation :: "confirmation \<Rightarrow> confirmation" where
  "clearPendingConfirmation s =
     (let s1 = (case confirmationTimeout s of
                  Some h \<Rightarrow> (clearTimeout h s)\<lparr>confirmationTimeout := None\<rparr>
                | None \<Rightarrow> s)
      in emit HideConfirmationUI (s1\<lparr>pendingConfirmation := None\<rparr>))"

definition requestConfirmation ::
  "confirmation \<Rightarrow> jsstring \<Rightarrow> jsstring \<Rightarrow> rat \<Rightarrow> bool \<Rightarrow> bool \<Rightarrow> confirmation" where
  "requestConfirmation s command originalText confidence onConfirmed onRejected =
     (let s1 = clearPendingConfirmation s;
          s2 = s1\<lparr>pendingConfirmation := Some
                  \<lparr>p_command = command, p_originalText = originalText,
                   p_confidence = confidence, p_onConfirmed = onConfirmed,
                   p_onRejected = onRejected, p_timestamp = now s1\<rparr>\<rparr>;
          s3 = emit ShowConfirmationUI s2;
          s4 = emit (SpeakAfter 500 (command @ msg_is_that_right)) s3
      in setTimeout 10000 s4)"

definition confirmCommand :: "host \<Rightarrow> confirmation \<Rightarrow> unit outcome \<times> confirmation" where
  "confirmCommand h s =
     (case pendingConfirmation s of
        None \<Rightarrow> (Returns (), s)
      | Some p \<Rightarrow>
          (let s1 = emit HideConfirmationUI s;
               s2 = (if p_onConfirmed p
                     then emit (OnConfirmed (p_command p) (p_originalText p)) s1 else s1);
               s3 = emit (PlaySound (js ''notification'') (5 / 10)) s2
           in if hasAddLearningPattern h
              then (Returns (),
                    clearPendingConfirmation
                      (emit (AddLearningPattern (p_originalText p) (p_command p) 1) s3))
              else (Throws TypeError, s3)))"

definition rejectCommand :: "confirmation \<Rightarrow> confirmation" where
  "rejectCommand s =
     (case pendingConfirmation s of
        None \<Rightarrow> s
      | Some p \<Rightarrow>
          (let s1 = emit HideConfirmationUI s;
               s2 = (if p_onRejected p
                     then emit (OnRejected (p_originalText p) msg_wrong_recognition) s1 else s1);
               s3 = emit (PlaySound (js ''error'') (3 / 10)) s2
           in clearPendingConfirmation s3))"

definition replaceCommand ::
  "host \<Rightarrow> confirmation \<Rightarrow> jsstring \<Rightarrow> jsstring \<Rightarrow> unit outcome \<times> confirmation" where
  "replaceCommand h s newCommand newText =
     (case pendingConfirmation s of
        None \<Rightarrow> (Returns (), s)
      | Some p \<Rightarrow>
          (let s1 = emit HideConfirmationUI s;
               s2 = (if p_onConfirmed p then emit (OnConfirmed newCommand newText) s1 else s1)
           in if hasAddCorrectionPattern h
              then (Returns (),
                    clearPendingConfirmation
                      (emit (PlaySound (js ''success'') (4 / 10))
                         (emit (AddCorrectionPattern (p_originalText p) (p_command p)
                                  newText newCommand) s2)))
              else (Throws TypeError, s2)))"

definition retryCommand :: "confirmation \<Rightarrow> confirmation" where
  "retryCommand s =
     (case pendingConfirmation s of
        None \<Rightarrow> s
      | Some p \<Rightarrow>
          clearPendingConfirmation
            (emit (SpeakAsSystem msg_please_repeat) (emit HideConfirmationUI s)))"

definition handleUnknownResponse :: "confirmation \<Rightarrow> jsstring \<Rightarrow> confirmation" where
  "handleUnknownResponse s responseText =
     (let s1 = emit (SpeakAsSystem msg_answer_yes_or_no) s;
          s2 = emit (PlaySound (js ''notification'') (3 / 10)) s1
      in (case confirmationTimeout s2 of
            Some h \<Rightarrow> setTimeout 10000 (clearTimeout h s2)
          | None \<Rightarrow> s2))"

definition handleConfirmationTimeout :: "confirmation \<Rightarrow> confirmation" where
  "handleConfirmationTimeout s =
     (case pendingConfirmation s of
        None \<Rightarrow> s
      | Some p \<Rightarrow> emit (SpeakAsSystem msg_timed_out) (rejectCommand s))"

text \<open>
  \<open>confirmationPhrases\<close>: each is \<open>/^(a|b|...)/i\<close>, a match of one alternative at the
  start of the string, code units compared after the case folding of the \<open>i\<close> flag,
  which is to upper case and is modelled on the Basic Latin block (kana and kanji fold
  to themselves). The alternatives are hai,
  sou desu, seikai, ookee, OK, un, sou, sono toori; iie, chigaimasu, chigau (kana),
  dame, noo, NO, chigau; mou ichido, yarinaoshi, ritorai, saido.
\<close>

definition canonicalize :: "jschar \<Rightarrow> jschar" where
  "canonicalize c = (if 0x61 \<le> c \<and> c \<le> 0x7A then c - 0x20 else c)"

definition phraseTest :: "jsstring list \<Rightarrow> jsstring \<Rightarrow> bool" where
  "phraseTest alternatives s =
     list_ex (\<lambda>alt. prefix (map canonicalize alt) (map canonicalize s)) alternatives"

definition confirmationPhrases_yes :: "jsstring list" where
  "confirmationPhrases_yes =
     [[0x306F, 0x3044], [0x305D, 0x3046, 0x3067, 0x3059], [0x6B63, 0x89E3],
      [0x30AA, 0x30FC, 0x30B1, 0x30FC], js ''OK'', [0x3046, 0x3093], [0x305D, 0x3046],
      [0x305D, 0x306E, 0x901A, 0x308A]]"

definition confirmationPhrases_no :: "jsstring list" where
  "confirmationPhrases_no =
     [[0x3044, 0x3044, 0x3048], [0x9055, 0x3044, 0x307E, 0x3059], [0x3061, 0x304C, 0x3046],
      [0x3060, 0x3081], [0x30CE, 0x30FC], js ''NO'', [0x9055, 0x3046]]"

definition confirmationPhrases_retry :: "jsstring list" where
  "confirmationPhrases_retry =
     [[0x3082, 0x3046, 0x4E00, 0x5EA6], [0x3084, 0x308A, 0x76F4, 0x3057],
      [0x30EA, 0x30C8, 0x30E9, 0x30A4], [0x518D, 0x5EA6]]"

definition handleConfirmationResponse ::
  "host \<Rightarrow> confirmation \<Rightarrow> jsstring \<Rightarrow> bool outcome \<times> confirmation" where
  "handleConfirmationResponse h s responseText =
     (case pendingConfirmation s of
        None \<Rightarrow> (Returns False, s)
      | Some p \<Rightarrow>
          (let response = toLowerCase responseText;
               unknown = (Returns False, handleUnknownResponse s responseText)
           in if phraseTest confirmationPhrases_yes response
              then (case confirmCommand h s of
                      (Returns u, s') \<Rightarrow> (Returns True, s')
                    | (Throws e, s') \<Rightarrow> (Throws e, s'))
              else if phraseTest confirmationPhrases_no response
              then (Returns True, rejectCommand s)
              else if phraseTest confirmationPhrases_retry response
              then (Returns True, retryCommand s)
              else (case parseCommand h of
                      None \<Rightarrow> (Throws TypeError, s)
                    | Some parse \<Rightarrow>
                        (case parse response of
                           Str newCommand \<Rightarrow>
                             if newCommand \<noteq> [] \<and> newCommand \<noteq> js ''unknown''
                             then (case replaceCommand h s newCommand responseText of
                                     (Returns u, s') \<Rightarrow> (Returns True, s')
                                   | (Throws e, s') \<Rightarrow> (Throws e, s'))
                             else unknown
                         | _ \<Rightarrow> unknown))))"

text \<open>
  The event loop: time passes, and a timer that is set and due fires, which removes it
  and runs its callback, \<open>handleConfirmationTimeout\<close>. A timer that was cleared is not
  among \<open>timers\<close> and cannot fire.
\<close>

definition tick :: "nat \<Rightarrow> confirmation \<Rightarrow> confirmation" where
  "tick d s = s\<lparr>now := now s + d\<rparr>"

definition timerFires :: "nat \<Rightarrow> confirmation \<Rightarrow> confirmation" where
  "timerFires h s =
     (case map_of (timers s) h of
        None \<Rightarrow> s
      | Some due \<Rightarrow>
          if due \<le> now s then handleConfirmationTimeout (clearTimeout h s) else s)"

text \<open>
  The recognisers that construct a \<open>ConfirmationSystem\<close> with themselves as host.
  \<open>AdvancedVoiceRecognition\<close> (mic-test.js) defines \<open>addLearningPattern\<close> and
  \<open>addCorrectionPattern\<close> and inherits \<open>parseCommand\<close> from \<open>VoiceRecognition\<close>;
  \<open>UnifiedVoiceRecognition\<close> (voice-recognition-unified.js) defines none of the three.
\<close>

definition advancedHost :: "(jsstring \<Rightarrow> jsval) \<Rightarrow> host" where
  "advancedHost parse =
     \<lparr>parseCommand = Some parse, hasAddLearningPattern = True, hasAddCorrectionPattern = True\<rparr>"

definition unifiedHost :: host where
  "unifiedHost =
     \<lparr>parseCommand = None, hasAddLearningPattern = False, hasAddCorrectionPattern = False\<rparr>"

text \<open>
  The threshold the specification names for a command and a transcript: 0.8 for a
  command of the high-stakes set, 0.75 for a transcript of more than three tokens,
  0.6 otherwise.
\<close>

definition applicableThreshold :: "jsstring \<Rightarrow> jsstring \<Rightarrow> rat" where
  "applicableThreshold command originalText =
     (if list_ex (\<lambda>cmd. js_includes (toLowerCase command) (toLowerCase cmd)) criticalCommands
      then 8 / 10
      else if length (js_split 0x20 originalText) > 3 then 75 / 100
      else 6 / 10)"

text \<open>
  The ways a pending confirmation ends, each by the method of the source that ends it,
  and the invariant of the timers: the only timeout that is set is the one whose handle
  the system holds.
\<close>

datatype resolution = Confirmed | Rejected | Replaced jsstring jsstring | Retried | TimedOut

fun resolve :: "host \<Rightarrow> resolution \<Rightarrow> confirmation \<Rightarrow> unit outcome \<times> confirmation" where
  "resolve h Confirmed s = confirmCommand h s"
| "resolve h Rejected s = (Returns (), rejectCommand s)"
| "resolve h (Replaced newCommand newText) s = replaceCommand h s newCommand newText"
| "resolve h Retried s = (Returns (), retryCommand s)"
| "resolve h TimedOut s = (Returns (), handleConfirmationTimeout s)"

definition wf_confirmation :: "confirmation \<Rightarrow> bool" where
  "wf_confirmation s = list_all (\<lambda>(h, due). confirmationTimeout s = Some h) (timers s)"

fun isOnRejected :: "effect \<Rightarrow> bool" where
  "isOnRejected (OnRejected originalText reason) = True"
| "isOnRejected e = False"

section \<open>The command queue of AdvancedVoiceRecognition (mic-test.js)\<close>

text \<open>
  The fields of the sequencer, with the part of the event loop it uses. \<open>onCommand\<close> is
  the callback of the game, \<open>None\<close> when none is set; the value it stands for here is
  whether the game carried the command out, which the source never reads.
  \<open>onCommandCalls\<close> are the calls made to it: the time, the command, the text and that
  outcome. \<open>waiting\<close> are the times at which the \<open>wait\<close> promises that
  \<open>processCommandQueue\<close> is suspended on resolve; \<open>time\<close> is the clock in
  milliseconds.
\<close>

record queuedCommand =
  qc_command :: jsstring
  qc_originalText :: jsstring
  qc_timestamp :: nat

record sequencer =
  commandQueue :: "queuedCommand list"
  processingQueue :: bool
  queueProcessingDelay :: nat
  onCommand :: "(jsstring \<Rightarrow> jsstring \<Rightarrow> bool) option"
  onCommandCalls :: "(nat \<times> jsstring \<times> jsstring \<times> bool) list"
  waiting :: "nat list"
  time :: nat

definition newSequencer :: "(jsstring \<Rightarrow> jsstring \<Rightarrow> bool) option \<Rightarrow> sequencer" where
  "newSequencer callback =
     \<lparr>commandQueue = [], processingQueue = False, queueProcessingDelay = 1000,
      onCommand = callback, onCommandCalls = [], waiting = [], time = 0\<rparr>"

fun js_join :: "jsstring \<Rightarrow> jsstring list \<Rightarrow> jsstring" where
  "js_join sep [] = []"
| "js_join sep [x] = x"
| "js_join sep (x # y # ys) = x @ sep @ js_join sep (y # ys)"

text \<open>renzoku komando, colon: the head of the queue notice; the arrow between commands.\<close>

definition msg_queued :: jsstring where
  "msg_queued = [0x9023, 0x7D9A, 0x30B3, 0x30DE, 0x30F3, 0x30C9, 0xFF1A]"

definition msg_arrow :: jsstring where
  "msg_arrow = [0x0020, 0x2192, 0x0020]"

definition callOnCommand :: "sequencer \<Rightarrow> jsstring \<Rightarrow> jsstring \<Rightarrow> sequencer" where
  "callOnCommand s command originalText =
     (case onCommand s of
        None \<Rightarrow> s
      | Some callback \<Rightarrow>
          s\<lparr>onCommandCalls := onCommandCalls s
               @ [(time s, command, originalText, callback command originalText)]\<rparr>)"

definition executeCommand :: "sequencer \<Rightarrow> jsstring \<Rightarrow> jsstring \<Rightarrow> sequencer" where
  "executeCommand s command originalText = callOnCommand s command originalText"

text \<open>
  The \<open>while\<close> loop of \<open>processCommandQueue\<close>, from its test to the next \<open>await\<close> or
  to its end: one command is taken and executed; if more are queued the function
  suspends on \<open>wait(queueProcessingDelay)\<close>, otherwise the loop ends and the flag is
  lowered.
\<close>

definition queueLoop :: "sequencer \<Rightarrow> sequencer" where
  "queueLoop s =
     (case commandQueue s of
        [] \<Rightarrow> s\<lparr>processingQueue := False\<rparr>
      | commandInfo # rest \<Rightarrow>
          (let s1 = executeCommand (s\<lparr>commandQueue := rest\<rparr>)
                      (qc_command commandInfo) (qc_originalText commandInfo)
           in if commandQueue s1 \<noteq> []
              then s1\<lparr>waiting := waiting s1 @ [time s1 + queueProcessingDelay s1]\<rparr>
              else s1\<lparr>processingQueue := False\<rparr>))"

definition processCommandQueue :: "sequencer \<Rightarrow> sequencer" where
  "processCommandQueue s =
     (if processingQueue s then s else queueLoop (s\<lparr>processingQueue := True\<rparr>))"

definition queueCommands :: "sequencer \<Rightarrow> jsstring list \<Rightarrow> jsstring \<Rightarrow> sequencer" where
  "queueCommands s commands originalText =
     (let s1 = s\<lparr>commandQueue := commandQueue s
                  @ map (\<lambda>command. \<lparr>qc_command = command, qc_originalText = originalText,
                                      qc_timestamp = time s\<rparr>) commands\<rparr>;
          s2 = (if \<not> processingQueue s1 then processCommandQueue s1 else s1)
      in callOnCommand s2 (js ''queue'') (msg_queued @ js_join msg_arrow commands))"

text \<open>Time passes; the earliest \<open>wait\<close> resolves once it is due, and the loop goes on.\<close>

definition advance :: "nat \<Rightarrow> sequencer \<Rightarrow> sequencer" where
  "advance d s = s\<lparr>time := time s + d\<rparr>"

definition waitResolves :: "sequencer \<Rightarrow> sequencer" where
  "waitResolves s =
     (case waiting s of
        [] \<Rightarrow> s
      | due # rest \<Rightarrow> if due \<le> time s then queueLoop (s\<lparr>waiting := rest\<rparr>) else s)"

section \<open>The audio queue of WhisperWASMEngine (whisper-wasm-engine.js)\<close>

text \<open>
  An utterance is the array of its samples. \<open>audioQueue\<close> is the field
  \<open>processingQueue\<close> of the engine. \<open>inFlight\<close> are the calls of
  \<open>whisperModule.transcribe\<close> whose promise has not settled, \<open>transcribeCalls\<close> all
  the calls made, in order. \<open>resultsNotified\<close> and \<open>errorsNotified\<close> are the calls of
  \<open>notifyResult\<close> and the number of calls of \<open>notifyError\<close>.
\<close>

type_synonym samples = "rat list"

record audioItem =
  ai_audioData :: samples
  ai_duration :: nat
  ai_timestamp :: nat

record whisper =
  isInitialized :: bool
  isListening :: bool
  isProcessing :: bool
  audioQueue :: "audioItem list"
  whisperContext :: bool
  inFlight :: "samples list"
  transcribeCalls :: "samples list"
  resultsNotified :: "(jsstring \<times> rat) list"
  errorsNotified :: nat
  w_time :: nat

datatype transcription = Transcript jsstring rat | Failure

text \<open>
  What happens to an engine: \<open>init\<close> completes; \<open>start\<close> is called, and recording
  starts or fails to; \<open>stop\<close> is called; \<open>cleanup\<close> is called; a model switch drops
  the context or sets the new one; the audio processor reports the end of an utterance;
  the oldest unsettled call of \<open>transcribe\<close> settles; time passes.
\<close>

datatype whisperEvent =
    Init
  | Start bool
  | Stop
  | Cleanup
  | SetContext bool
  | SpeechEnd samples nat
  | TranscriptionSettles transcription
  | Elapse nat

definition newWhisperWASMEngine :: whisper where
  "newWhisperWASMEngine =
     \<lparr>isInitialized = False, isListening = False, isProcessing = False, audioQueue = [],
      whisperContext = False, inFlight = [], transcribeCalls = [], resultsNotified = [],
      errorsNotified = 0, w_time = 0\<rparr>"

text \<open>
  The \<open>while\<close> loop of \<open>processQueuedAudio\<close>, from its test to the next \<open>await\<close> or to
  its end. \<open>transcribeAudio\<close> throws when there is no context, which the \<open>catch\<close> of
  \<open>processQueuedAudio\<close> logs before \<open>finally\<close> lowers the flag; otherwise it calls
  \<open>transcribe\<close> and the function suspends on the promise.
\<close>

definition audioLoop :: "whisper \<Rightarrow> whisper" where
  "audioLoop s =
     (case audioQueue s of
        [] \<Rightarrow> s\<lparr>isProcessing := False\<rparr>
      | audioItem # rest \<Rightarrow>
          (let s1 = s\<lparr>audioQueue := rest\<rparr>
           in if \<not> whisperContext s1 then s1\<lparr>isProcessing := False\<rparr>
              else s1\<lparr>inFlight := inFlight s1 @ [ai_audioData audioItem],
                      transcribeCalls := transcribeCalls s1 @ [ai_audioData audioItem]\<rparr>))"

definition processQueuedAudio :: "whisper \<Rightarrow> whisper" where
  "processQueuedAudio s =
     (if isProcessing s \<or> audioQueue s = [] then s
      else audioLoop (s\<lparr>isProcessing := True\<rparr>))"

definition processAudioData :: "whisper \<Rightarrow> samples \<Rightarrow> nat \<Rightarrow> whisper" where
  "processAudioData s audioData duration =
     (if \<not> isListening s \<or> isProcessing s then s
      else processQueuedAudio
             (s\<lparr>audioQueue := audioQueue s
                  @ [\<lparr>ai_audioData = audioData, ai_duration = duration,
                      ai_timestamp = w_time s\<rparr>]\<rparr>))"

text \<open>
  The rest of \<open>transcribeAudio\<close> once the promise has settled: a text that is not
  blank is notified, with confidence 0.8 when the result carries none; a rejection is
  caught and notified as an error.
\<close>

definition transcribed :: "whisper \<Rightarrow> transcription \<Rightarrow> whisper" where
  "transcribed s result =
     (case result of
        Transcript text confidence \<Rightarrow>
          if trim text \<noteq> []
          then s\<lparr>resultsNotified := resultsNotified s
                   @ [(trim text, if confidence = 0 then 8 / 10 else confidence)]\<rparr>
          else s
      | Failure \<Rightarrow> s\<lparr>errorsNotified := Suc (errorsNotified s)\<rparr>)"

fun whisperStep :: "whisper \<Rightarrow> whisperEvent \<Rightarrow> whisper" where
  "whisperStep s Init = s\<lparr>isInitialized := True, whisperContext := True\<rparr>"
| "whisperStep s (Start recording) =
     (if \<not> isInitialized s then s\<lparr>errorsNotified := Suc (errorsNotified s)\<rparr>
      else if isListening s then s
      else if \<not> recording then s\<lparr>errorsNotified := Suc (errorsNotified s)\<rparr>
      else s\<lparr>isListening := True\<rparr>)"
| "whisperStep s Stop = (if \<not> isListening s then s else s\<lparr>isListening := False\<rparr>)"
| "whisperStep s Cleanup =
     s\<lparr>isListening := False, isInitialized := False, audioQueue := [], isProcessing := False,
       whisperContext := False\<rparr>"
| "whisperStep s (SetContext present) = s\<lparr>whisperContext := present\<rparr>"
| "whisperStep s (SpeechEnd audioData duration) = processAudioData s audioData duration"
| "whisperStep s (TranscriptionSettles result) =
     (case inFlight s of
        [] \<Rightarrow> s
      | audioData # rest \<Rightarrow> audioLoop (transcribed (s\<lparr>inFlight := rest\<rparr>) result))"
| "whisperStep s (Elapse d) = s\<lparr>w_time := w_time s + d\<rparr>"

definition whisperRun :: "whisperEvent list \<Rightarrow> whisper" where
  "whisperRun events = foldl whisperStep newWhisperWASMEngine events"

text \<open>
  \<open>cleanup\<close> lowers the flag and empties the queue whatever is in flight. A run in
  which it is only called while no call of \<open>transcribe\<close> is unsettled:
\<close>

fun cleanupWhenIdle :: "whisper \<Rightarrow> whisperEvent list \<Rightarrow> bool" where
  "cleanupWhenIdle s [] = True"
| "cleanupWhenIdle s (e # events) =
     ((e = Cleanup \<longrightarrow> inFlight s = []) \<and> cleanupWhenIdle (whisperStep s e) events)"

text \<open>
  What holds between events of such a run: no utterance is left in the queue, at most
  one call of \<open>transcribe\<close> is unsettled, and the flag is up exactly while one is.
\<close>

definition whisperInvariant :: "whisper \<Rightarrow> bool" where
  "whisperInvariant s =
     (audioQueue s = [] \<and> length (inFlight s) \<le> 1 \<and> (isProcessing s \<longleftrightarrow> inFlight s \<noteq> []))"

section \<open>The pipeline of UnifiedVoiceRecognition (voice-recognition-unified.js)\<close>

text \<open>
  The keyword table inside \<open>parseAdvancedCommand\<close> and the paraphrase patterns set by
  \<open>initializeNaturalLanguagePatterns\<close>, which has no compound entries.
\<close>

definition unified_commandMap :: "(jsstring \<times> jsstring) list" where
  "unified_commandMap =
    [([0x653B, 0x6483], js ''attack''),
     ([0x3053, 0x3046, 0x3052, 0x304D], js ''attack''),
     (js ''attack'', js ''attack''),
     ([0x9632, 0x5FA1], js ''defend''),
     ([0x307C, 0x3046, 0x304E, 0x3087], js ''defend''),
     (js ''defend'', js ''defend''),
     ([0x64A4, 0x9000], js ''retreat''),
     ([0x3066, 0x3063, 0x305F, 0x3044], js ''retreat''),
     (js ''retreat'', js ''retreat''),
     ([0x72B6, 0x6CC1], js ''status''),
     ([0x3058, 0x3087, 0x3046, 0x304D, 0x3087, 0x3046], js ''status''),
     (js ''status'', js ''status'')]"

definition unified_naturalLanguagePatterns :: "(jsstring \<times> regex list) list" where
  "unified_naturalLanguagePatterns =
    [(js ''attack'',
       [[Lit [0x6575], DotStar, Lit [0x3084, 0x3063, 0x3064, 0x3051]],
        [Lit [0x6575], DotStar, Lit [0x5012]],
        [Lit [0x6575], DotStar, Lit [0x6483, 0x7834]],
        [Lit [0x653B, 0x6483], DotStar, Lit [0x3057, 0x3066]],
        [Lit [0x3084, 0x3063, 0x3064, 0x3051, 0x3066]],
        [Lit [0x5012, 0x3057, 0x3066]],
        [Lit [0x6483, 0x3063, 0x3066]],
        [Lit [0x6226, 0x3063, 0x3066]],
        [Lit [0x6575], DotStar, Lit [0x6D88, 0x3057, 0x3066]],
        [Lit [0x6575], DotStar, Lit [0x6392, 0x9664]]]),
     (js ''defend'',
       [[Lit [0x5B88, 0x3063, 0x3066]],
        [Lit [0x9632, 0x3044, 0x3067]],
        [Lit [0x30B7, 0x30FC, 0x30EB, 0x30C9]],
        [Lit [0x30D0, 0x30EA, 0x30A2]],
        [Lit [0x9632, 0x885B], DotStar, Lit [0x5F37, 0x5316]],
        [Lit [0x56DE, 0x5FA9], DotStar, Lit [0x3057, 0x3066]],
        [Lit [0x6CBB, 0x3057, 0x3066]],
        [Lit [0x76F4, 0x3057, 0x3066]],
        [Lit [0x7ACB, 0x3066, 0x76F4]],
        [Lit [0x6301, 0x3061, 0x3053, 0x305F, 0x3048]],
        [Lit [0x8010, 0x3048]]]),
     (js ''retreat'',
       [[Lit [0x9003, 0x3052]],
        [Lit [0x9000, 0x907F]],
        [Lit [0x4E0B, 0x304C, 0x3063, 0x3066]],
        [Lit [0x5F15, 0x3044, 0x3066]],
        [Lit [0x907F, 0x96E3]],
        [Lit [0x64A4, 0x9000], DotStar, Lit [0x3057, 0x3066]],
        [Lit [0x5371, 0x967A], DotStar, Lit [0x3060, 0x304B, 0x3089]],
        [Lit [0x3084, 0x3070, 0x3044]],
        [Lit [0x307E, 0x305A, 0x3044]],
        [Lit [0x7121, 0x7406]],
        [Lit [0x53B3, 0x3057, 0x3044]]]),
     (js ''status'',
       [[Lit [0x3069, 0x3046, 0x306A, 0x3063, 0x3066]],
        [Lit [0x72B6, 0x6CC1], DotStar, Lit [0x6559, 0x3048, 0x3066]],
        [Lit [0x4ECA], DotStar, Lit [0x3069, 0x3046]],
        [Lit [0x4F55, 0x304C], DotStar, Lit [0x8D77, 0x304D, 0x3066]],
        [Lit [0x73FE, 0x5728], DotStar, Lit [0x72B6, 0x6CC1]],
        [Lit [0x30EC, 0x30DD, 0x30FC, 0x30C8]],
        [Lit [0x5831, 0x544A], DotStar, Lit [0x3057, 0x3066]],
        [Lit [0x78BA, 0x8A8D]],
        [Lit [0x30C1, 0x30A7, 0x30C3, 0x30AF]]])]"

text \<open>ninshiki dekimasen deshita ("could not recognise"), colon, space, quotation mark.\<close>

definition msg_unrecognized :: jsstring where
  "msg_unrecognized =
     [0x8A8D, 0x8B58, 0x3067, 0x304D, 0x307E, 0x305B, 0x3093, 0x3067, 0x3057, 0x305F,
      0x003A, 0x0020, 0x0022]"

text \<open>
  The calls the recogniser makes to the callbacks of the application, and its state
  after \<open>init\<close>: the fields of \<open>advancedFeatures\<close> that the pipeline uses, which of the
  callbacks are set, the calls made, the timeouts \<open>queueCommands\<close> has set (time due,
  command, text) and the clock. \<open>u_confirmationSystem\<close> is \<open>None\<close> until
  \<open>initConfirmationSystem\<close> constructs the system, with this recogniser as its host.
\<close>

datatype unifiedCall =
    CallOnCommand jsstring jsstring
  | CallOnCommandQueue "jsstring list"
  | CallOnConfirmationRequest jsstring jsstring rat
  | CallOnError jsstring jsstring bool

record unified =
  u_contextHistory :: "(jsstring \<times> nat) list"
  u_userPatterns :: "(jsval \<times> jsstring list) list"
  u_learnedCommands :: "(jsstring \<times> jsval) list"
  u_confirmationSystem :: "confirmation option"
  u_onCommand :: bool
  u_onCommandQueue :: bool
  u_onConfirmationRequest :: bool
  u_onError :: bool
  u_calls :: "unifiedCall list"
  u_scheduled :: "(nat \<times> jsstring \<times> jsstring) list"
  u_clock :: nat



definition unified_parseAdvancedCommand :: "unified \<Rightarrow> jsstring \<Rightarrow> jsstring list" where
  "unified_parseAdvancedCommand u transcript =
     (let lowerTranscript = toLowerCase transcript;
          learnedCommand = checkLearnedPatterns (u_learnedCommands u) transcript;
          unlearned = keywordCheck unified_commandMap lowerTranscript
      in if truthy learnedCommand
         then (case learnedCommand of Str c \<Rightarrow> [c] | _ \<Rightarrow> unlearned)
         else unlearned)"

text \<open>The loop of \<open>parseNaturalLanguage\<close>: the first command with a matching pattern.\<close>

fun naturalCheck :: "(jsstring \<times> regex list) list \<Rightarrow> jsstring \<Rightarrow> jsstring option" where
  "naturalCheck [] lowerTranscript = None"
| "naturalCheck ((command, patternArray) # rest) lowerTranscript =
     (if list_ex (\<lambda>pattern. rx_test pattern lowerTranscript) patternArray then Some command
      else naturalCheck rest lowerTranscript)"

definition unified_parseNaturalLanguage :: "jsstring \<Rightarrow> jsstring option" where
  "unified_parseNaturalLanguage transcript =
     naturalCheck unified_naturalLanguagePatterns (toLowerCase transcript)"

definition unified_learnSuccessfulPattern ::
  "unified \<Rightarrow> jsstring \<Rightarrow> jsstring list \<Rightarrow> unified" where
  "unified_learnSuccessfulPattern u transcript commands =
     (let key = trim (toLowerCase transcript);
          command = (case commands of [] \<Rightarrow> Undefined | c # _ \<Rightarrow> Str c);
          patterns = Set_add (case map_of (u_userPatterns u) command of
                                None \<Rightarrow> []
                              | Some ps \<Rightarrow> ps) key
      in u\<lparr>u_userPatterns := Map_set (u_userPatterns u) command patterns\<rparr>)"

definition unified_executeCommand :: "unified \<Rightarrow> jsstring \<Rightarrow> jsstring \<Rightarrow> unified" where
  "unified_executeCommand u command originalText =
     (if u_onCommand u then u\<lparr>u_calls := u_calls u @ [CallOnCommand command originalText]\<rparr>
      else u)"

definition unified_queueCommands :: "unified \<Rightarrow> jsstring list \<Rightarrow> jsstring \<Rightarrow> unified" where
  "unified_queueCommands u commands originalText =
     (let u1 = (if u_onCommandQueue u
                then u\<lparr>u_calls := u_calls u @ [CallOnCommandQueue commands]\<rparr> else u)
      in u1\<lparr>u_scheduled := u_scheduled u1
                @ map (\<lambda>(index, command). (u_clock u1 + index * 1000, command, originalText))
                    (enumerate 0 commands)\<rparr>)"

definition unified_requestConfirmationWithSystem ::
  "unified \<Rightarrow> jsstring \<Rightarrow> jsstring \<Rightarrow> rat \<Rightarrow> jsstring list \<Rightarrow> unified" where
  "unified_requestConfirmationWithSystem u command transcript confidence allCommands =
     (if u_onConfirmationRequest u
      then u\<lparr>u_calls := u_calls u @ [CallOnConfirmationRequest transcript command confidence]\<rparr>
      else u)"

definition unified_handleUnrecognizedInput :: "unified \<Rightarrow> jsstring \<Rightarrow> unified" where
  "unified_handleUnrecognizedInput u transcript =
     (if u_onError u
      then u\<lparr>u_calls := u_calls u
               @ [CallOnError (msg_unrecognized @ transcript @ [0x0022]) (js ''unrecognized'')
                    False]\<rparr>
      else u)"

text \<open>
  \<open>processRecognitionResult\<close> from the parse on: the paraphrase patterns are tried when
  no keyword is found; a first command that needs confirmation is reported to the
  \<open>onConfirmationRequest\<close> callback, and nothing else is done with it.
\<close>

definition unified_matchAndDispatch :: "unified \<Rightarrow> jsstring \<Rightarrow> rat \<Rightarrow> unified" where
  "unified_matchAndDispatch u transcript confidence =
     (let parsed = unified_parseAdvancedCommand u transcript;
          commands = (if parsed = []
                      then (case unified_parseNaturalLanguage transcript of
                              Some naturalCommand \<Rightarrow>
                                if naturalCommand \<noteq> [] then [naturalCommand] else []
                            | None \<Rightarrow> [])
                      else parsed)
      in (case commands of
            [] \<Rightarrow> unified_handleUnrecognizedInput u transcript
          | primaryCommand # others \<Rightarrow>
              if (case u_confirmationSystem u of
                    Some cs \<Rightarrow> shouldConfirm cs primaryCommand transcript confidence
                  | None \<Rightarrow> False)
              then unified_requestConfirmationWithSystem u primaryCommand transcript confidence
                     commands
              else (let u1 = unified_learnSuccessfulPattern u transcript commands
                    in if others = [] then unified_executeCommand u1 primaryCommand transcript
                       else unified_queueCommands u1 commands transcript)))"





section \<open>Example inputs\<close>

text \<open>The transcript kougeki shite kara bougyo ("attack, then defend").\<close>

definition kougeki_shite_kara_bougyo :: jsstring where
  "kougeki_shite_kara_bougyo = [0x653B, 0x6483, 0x3057, 0x3066, 0x304B, 0x3089, 0x9632, 0x5FA1]"

text \<open>
  A store that has learned the phrase "go" for attack and, later, "go back" for retreat.
\<close>

definition learned_go_then_go_back :: learning where
  "learned_go_then_go_back =
     emptyLearning\<lparr>learnedCommands :=
       [(js ''go'', Str (js ''attack'')), (js ''go back'', Str (js ''retreat''))]\<rparr>"

text \<open>A store whose learned patterns are "stop", "go back" and "go", in that order.\<close>

definition learned_stop_go_back_go :: learning where
  "learned_stop_go_back_go =
     emptyLearning\<lparr>learnedCommands :=
       [(js ''stop'', Str (js ''defend'')), (js ''go back'', Str (js ''retreat'')),
        (js ''go'', Str (js ''attack''))]\<rparr>"

text \<open>A store with three phrases recorded for attack, the third of them promoted.\<close>

definition learning_with_promotion :: learning where
  "learning_with_promotion =
     emptyLearning\<lparr>userPatterns :=
                     [(Str (js ''attack''), [js ''fire'', js ''shoot'', js ''go'']),
                      (Str (js ''defend''), [js ''hold'', js ''go''])],
                   learnedCommands := [(js ''go'', Str (js ''attack''))]\<rparr>"

text \<open>
  A confirmation requested for attack, heard as kougeki with confidence 0.55, on a
  fresh system; the responses eeto ("um") and mou ichido ("once more"); a
  \<open>parseCommand\<close> that finds no command.
\<close>

definition pending_attack :: confirmation where
  "pending_attack =
     requestConfirmation newConfirmationSystem (js ''attack'') [0x653B, 0x6483] (55 / 100)
       True True"

definition eeto :: jsstring where
  "eeto = [0x3048, 0x30FC, 0x3068]"

definition mou_ichido :: jsstring where
  "mou_ichido = [0x3082, 0x3046, 0x4E00, 0x5EA6]"

definition recognisesNothing :: "jsstring \<Rightarrow> jsval" where
  "recognisesNothing response = Null"

text \<open>
  A game that refuses every command, and two utterances; the engine after the first
  has ended and while it is being transcribed.
\<close>

definition refusesAll :: "jsstring \<Rightarrow> jsstring \<Rightarrow> bool" where
  "refusesAll command originalText = False"

definition utterance1 :: samples where
  "utterance1 = [1 / 10, 2 / 10, 1 / 10]"

definition utterance2 :: samples where
  "utterance2 = [3 / 10, 1 / 10]"

definition transcribing_first :: whisper where
  "transcribing_first =
     whisperRun [Init, Cleanup, Init, Start True, SpeechEnd utterance1 900]"




section \<open>Properties of the learning store and of the pattern matcher\<close>

lemma checkLearnedPatterns_skip:
  "\<forall>(k', c') \<in> set before. \<not> js_includes (toLowerCase t) (toLowerCase k') \<Longrightarrow>
   checkLearnedPatterns (before @ rest) t = checkLearnedPatterns rest t"
  by (induction before) auto

text \<open>
  C1, as amended. When \<open>k\<close> is the first key of the learned patterns, in insertion
  order, whose lower-case form occurs in the lower-case transcript, and the command
  bound to \<open>k\<close> is a non-empty string, \<open>parseAdvancedCommand\<close> returns exactly the
  one-element list of that command, whatever else the transcript contains. The matcher
  takes no confidence, so the result is the same for every confidence.
\<close>

theorem learned_first_match:
  assumes "learnedCommands s = before @ (k, Str c) # after"
      and "js_includes (toLowerCase t) (toLowerCase k)"
      and "\<forall>(k', c') \<in> set before. \<not> js_includes (toLowerCase t) (toLowerCase k')"
      and "c \<noteq> []"
    shows "parseAdvancedCommand s t = [c]"
  using assms by (simp add: parseAdvancedCommand_def checkLearnedPatterns_skip truthy_def)

theorem learned_first_match_witness:
  "learnedCommands learned_stop_go_back_go =
     [(js ''stop'', Str (js ''defend''))] @ (js ''go back'', Str (js ''retreat''))
       # [(js ''go'', Str (js ''attack''))]
   \<and> js_includes (toLowerCase (js ''Go Back '' @ kougeki_shite_kara_bougyo))
        (toLowerCase (js ''go back''))
   \<and> js ''retreat'' \<noteq> []
   \<and> parseAdvancedCommand learned_stop_go_back_go (js ''Go Back '' @ kougeki_shite_kara_bougyo) =
       [js ''retreat'']"
proof -
  have h1: "learnedCommands learned_stop_go_back_go =
     [(js ''stop'', Str (js ''defend''))] @ (js ''go back'', Str (js ''retreat''))
       # [(js ''go'', Str (js ''attack''))]"
    by (simp add: learned_stop_go_back_go_def)
  have h2: "js_includes (toLowerCase (js ''Go Back '' @ kougeki_shite_kara_bougyo))
              (toLowerCase (js ''go back''))"
    by code_simp
  have h3: "\<forall>(k', c') \<in> set [(js ''stop'', Str (js ''defend''))].
              \<not> js_includes (toLowerCase (js ''Go Back '' @ kougeki_shite_kara_bougyo))
                  (toLowerCase k')"
    by code_simp
  have h4: "js ''retreat'' \<noteq> []"
    by (simp add: js_def)
  from learned_first_match [OF h1 h2 h3 h4] h1 h2 h4 show ?thesis
    by blast
qed

text \<open>
  C1 as stated fails: "go back" is a key of the learned patterns, bound to retreat, and
  occurs in the transcript "Go back", yet the matcher answers with the command of the
  earlier key "go".
\<close>

theorem learned_any_key_counterexample:
  "map_of (learnedCommands learned_go_then_go_back) (js ''go back'') = Some (Str (js ''retreat''))
   \<and> js_includes (toLowerCase (js ''Go back'')) (toLowerCase (js ''go back''))
   \<and> parseAdvancedCommand learned_go_then_go_back (js ''Go back'') \<noteq> [js ''retreat'']"
  by code_simp

text \<open>
  C2 at its failing input: after the pair (kougeki, attack) has been recorded three
  times from the empty store, the candidate set of attack holds the one phrase and no
  learned pattern exists.
\<close>

theorem three_identical_recordings_not_promoted:
  "learnedCommands
     (learnSuccessfulPattern
        (learnSuccessfulPattern
           (learnSuccessfulPattern emptyLearning [0x653B, 0x6483] [js ''attack''])
           [0x653B, 0x6483] [js ''attack''])
        [0x653B, 0x6483] [js ''attack'']) = []
   \<and> userPatterns
     (learnSuccessfulPattern
        (learnSuccessfulPattern
           (learnSuccessfulPattern emptyLearning [0x653B, 0x6483] [js ''attack''])
           [0x653B, 0x6483] [js ''attack''])
        [0x653B, 0x6483] [js ''attack'']) = [(Str (js ''attack''), [[0x653B, 0x6483]])]"
  by code_simp

text \<open>The same holds of every phrase and command: repetition alone never promotes.\<close>

lemma repeated_recording_never_promotes:
  "learnedCommands
     (learnSuccessfulPattern
        (learnSuccessfulPattern (learnSuccessfulPattern emptyLearning t [c]) t [c]) t [c]) = []"
  by (simp add: learnSuccessfulPattern_def emptyLearning_def Map_set_def Set_add_def Let_def)

subsection \<open>Persistence\<close>

lemma Set_add_fold: "distinct (acc @ xs) \<Longrightarrow> foldl Set_add acc xs = acc @ xs"
  by (induction xs arbitrary: acc) (auto simp: Set_add_def)

lemma new_Set_distinct: "distinct xs \<Longrightarrow> new_Set xs = xs"
  using Set_add_fold [of "[]" xs] by (simp add: new_Set_def)

lemma update_fresh: "k \<notin> fst ` set m \<Longrightarrow> AList.update k v m = m @ [(k, v)]"
  by (induction m) auto

lemma Map_set_fold:
  "distinct (map fst (acc @ es)) \<Longrightarrow> foldl (\<lambda>m (k, v). Map_set m k v) acc es = acc @ es"
proof (induction es arbitrary: acc)
  case Nil
  then show ?case by simp
next
  case (Cons e es)
  obtain k v where e: "e = (k, v)" by (cases e)
  from Cons.prems have fresh: "k \<notin> fst ` set acc" by (auto simp: e)
  from Cons.prems have "distinct (map fst ((acc @ [(k, v)]) @ es))" by (simp add: e)
  from Cons.IH [OF this] fresh show ?case by (simp add: e Map_set_def update_fresh)
qed

lemma new_Map_distinct: "distinct (map fst es) \<Longrightarrow> new_Map es = es"
  using Map_set_fold [of "[]" es] by (simp add: new_Map_def)

lemma jsonValue_id: "v \<noteq> Undefined \<Longrightarrow> jsonValue v = v"
  by (cases v) (simp_all add: jsonValue_def)

lemma stored_userPatterns:
  "list_all (\<lambda>(cmd, patterns). cmd \<noteq> Undefined \<and> distinct patterns) ups \<Longrightarrow>
   map (\<lambda>(cmd, patterns). (cmd, new_Set patterns))
     (map (\<lambda>(cmd, patterns). (jsonValue cmd, patterns)) ups) = ups"
  by (induction ups) (auto simp: jsonValue_id new_Set_distinct)

lemma stored_learnedCommands:
  "list_all (\<lambda>(pattern, cmd). cmd \<noteq> Undefined) lcs \<Longrightarrow>
   map (\<lambda>(pattern, cmd). (pattern, jsonValue cmd)) lcs = lcs"
  by (induction lcs) (auto simp: jsonValue_id)

text \<open>The invariant holds of the empty store and is kept by every recording.\<close>

lemma wf_learning_empty: "wf_learning emptyLearning"
  by (simp add: wf_learning_def emptyLearning_def)

lemma list_all_update:
  "list_all P al \<Longrightarrow> P (k, v) \<Longrightarrow> list_all P (AList.update k v al)"
  by (induction al) auto

lemma wf_learning_learn:
  assumes "wf_learning s"
  shows "wf_learning (learnSuccessfulPattern s t (c # cs))"
proof -
  let ?old = "case map_of (userPatterns s) (Str c) of None \<Rightarrow> [] | Some ps \<Rightarrow> ps"
  from assms have "distinct ?old"
    by (auto simp: wf_learning_def list_all_iff split: option.splits dest!: map_of_SomeD)
  then have "distinct (Set_add ?old (trim (toLowerCase t)))"
    by (simp add: Set_add_def)
  with assms show ?thesis
    by (simp add: wf_learning_def learnSuccessfulPattern_def saveUserLearning_def Let_def
        Map_set_def distinct_update list_all_update)
qed

lemma json_userPatterns:
  "list_all (\<lambda>(cmd, patterns). cmd \<noteq> Undefined \<and> distinct patterns) ups \<Longrightarrow>
   map (\<lambda>(cmd, patterns). (jsonValue cmd, patterns)) ups = ups"
  by (induction ups) (auto simp: jsonValue_id)

lemma rebuilt_userPatterns:
  "list_all (\<lambda>(cmd, patterns). cmd \<noteq> Undefined \<and> distinct patterns) ups \<Longrightarrow>
   map (\<lambda>(cmd, patterns). (cmd, new_Set patterns)) ups = ups"
  by (induction ups) (auto simp: new_Set_distinct)

text \<open>
  C7. For a store that keeps the invariant above, \<open>saveUserLearning\<close> writes a record
  that holds the candidate sets and the learned patterns, and \<open>loadUserLearning\<close> in a
  new instance, which has empty maps and only that record in its key-value store,
  rebuilds both maps entry for entry (so with the same keys and the same members), when
  the write to the key-value store succeeds.
\<close>

theorem save_load_roundtrip:
  assumes "wf_learning s" and "storageAvailable s"
  shows "map_option ld_userPatterns (localStorage (saveUserLearning s)) = Some (userPatterns s)
       \<and> map_option ld_learnedCommands (localStorage (saveUserLearning s)) =
           Some (learnedCommands s)
       \<and> userPatterns
           (loadUserLearning (emptyLearning\<lparr>localStorage := localStorage (saveUserLearning s)\<rparr>)) =
           userPatterns s
       \<and> learnedCommands
           (loadUserLearning (emptyLearning\<lparr>localStorage := localStorage (saveUserLearning s)\<rparr>)) =
           learnedCommands s"
  using assms
  by (simp add: wf_learning_def loadUserLearning_def saveUserLearning_def emptyLearning_def
      stored_learnedCommands json_userPatterns rebuilt_userPatterns new_Map_distinct
      del: map_map)

theorem save_load_roundtrip_witness:
  "wf_learning learning_with_promotion \<and> storageAvailable learning_with_promotion
   \<and> userPatterns
       (loadUserLearning
          (emptyLearning\<lparr>localStorage := localStorage (saveUserLearning learning_with_promotion)\<rparr>)) =
       [(Str (js ''attack''), [js ''fire'', js ''shoot'', js ''go'']),
        (Str (js ''defend''), [js ''hold'', js ''go''])]
   \<and> learnedCommands
       (loadUserLearning
          (emptyLearning\<lparr>localStorage := localStorage (saveUserLearning learning_with_promotion)\<rparr>)) =
       [(js ''go'', Str (js ''attack''))]"
proof -
  have h1: "wf_learning learning_with_promotion"
    by code_simp
  have h2: "storageAvailable learning_with_promotion"
    by (simp add: learning_with_promotion_def emptyLearning_def)
  have u: "userPatterns learning_with_promotion =
             [(Str (js ''attack''), [js ''fire'', js ''shoot'', js ''go'']),
              (Str (js ''defend''), [js ''hold'', js ''go''])]"
    and l: "learnedCommands learning_with_promotion = [(js ''go'', Str (js ''attack''))]"
    by (simp_all add: learning_with_promotion_def)
  from save_load_roundtrip [OF h1 h2] h1 h2 show ?thesis
    by (simp only: u l simp_thms)
qed

subsection \<open>Corrections\<close>

lemma map_of_delete_all:
  "map_of (map (\<lambda>(cmd, patterns). (cmd, Set_delete patterns key)) ups) cmd =
   map_option (\<lambda>ps. Set_delete ps key) (map_of ups cmd)"
  by (induction ups) auto

lemma userPatterns_learn:
  "userPatterns (learnSuccessfulPattern s t cs) =
   Map_set (userPatterns s) (case cs of [] \<Rightarrow> Undefined | c # _ \<Rightarrow> Str c)
     (Set_add (case map_of (userPatterns s) (case cs of [] \<Rightarrow> Undefined | c # _ \<Rightarrow> Str c) of
                 None \<Rightarrow> [] | Some ps \<Rightarrow> ps) (trim (toLowerCase t)))"
  by (simp add: learnSuccessfulPattern_def saveUserLearning_def Let_def)

lemma learnedCommands_learn:
  "p \<noteq> trim (toLowerCase t) \<Longrightarrow>
   map_of (learnedCommands (learnSuccessfulPattern s t cs)) p = map_of (learnedCommands s) p"
  by (simp add: learnSuccessfulPattern_def saveUserLearning_def Let_def Map_set_def update_conv')

text \<open>
  C10. \<open>addCorrectionPattern\<close> removes the normalised old text from the candidate set
  of every command, whatever \<open>oldCommand\<close> is, and then records the normalised new text
  under \<open>newCommand\<close>: the set of \<open>newCommand\<close> gains that phrase, no set changes
  otherwise, the only command that may be new is \<open>newCommand\<close>, every learned pattern
  under another phrase than the new one is as before, and the new phrase is as before
  or, when the recording promotes it, bound to \<open>newCommand\<close>.
\<close>

theorem correction_frame:
  "phrasesOf (addCorrectionPattern s oldText oldCommand newText newCommand) cmd =
     (if cmd = Str newCommand
      then insert (trim (toLowerCase newText)) (phrasesOf s cmd - {trim (toLowerCase oldText)})
      else phrasesOf s cmd - {trim (toLowerCase oldText)})
   \<and> fst ` set (userPatterns (addCorrectionPattern s oldText oldCommand newText newCommand)) =
       insert (Str newCommand) (fst ` set (userPatterns s))
   \<and> (p \<noteq> trim (toLowerCase newText) \<longrightarrow>
        map_of (learnedCommands (addCorrectionPattern s oldText oldCommand newText newCommand)) p =
        map_of (learnedCommands s) p)
   \<and> (map_of (learnedCommands (addCorrectionPattern s oldText oldCommand newText newCommand))
         (trim (toLowerCase newText)) = map_of (learnedCommands s) (trim (toLowerCase newText))
       \<or> map_of (learnedCommands (addCorrectionPattern s oldText oldCommand newText newCommand))
         (trim (toLowerCase newText)) = Some (Str newCommand))"
proof (intro conjI)
  let ?key = "trim (toLowerCase oldText)"
  let ?s1 = "s\<lparr>userPatterns :=
                 map (\<lambda>(cmd, patterns). (cmd, Set_delete patterns ?key)) (userPatterns s)\<rparr>"
  have ups: "userPatterns (addCorrectionPattern s oldText oldCommand newText newCommand) =
             userPatterns (learnSuccessfulPattern ?s1 newText [newCommand])"
    by (simp add: addCorrectionPattern_def addLearningPattern_def Let_def)
  have lcs: "learnedCommands (addCorrectionPattern s oldText oldCommand newText newCommand) =
             learnedCommands (learnSuccessfulPattern ?s1 newText [newCommand])"
    by (simp add: addCorrectionPattern_def addLearningPattern_def Let_def)
  show "phrasesOf (addCorrectionPattern s oldText oldCommand newText newCommand) cmd =
     (if cmd = Str newCommand
      then insert (trim (toLowerCase newText)) (phrasesOf s cmd - {trim (toLowerCase oldText)})
      else phrasesOf s cmd - {trim (toLowerCase oldText)})"
  proof -
    have m: "map_of (userPatterns (addCorrectionPattern s oldText oldCommand newText newCommand)) cmd =
       (if cmd = Str newCommand
        then Some (Set_add (case map_of (userPatterns s) cmd of
                              None \<Rightarrow> [] | Some ps \<Rightarrow> Set_delete ps ?key)
                     (trim (toLowerCase newText)))
        else map_option (\<lambda>ps. Set_delete ps ?key) (map_of (userPatterns s) cmd))"
      by (simp add: ups userPatterns_learn Map_set_def update_conv' map_of_delete_all
          split: option.splits)
    have a: "\<And>xs x. set (Set_add xs x) = insert x (set xs)"
      by (auto simp: Set_add_def)
    have d: "\<And>xs x. set (Set_delete xs x) = set xs - {x}"
      by (auto simp: Set_delete_def)
    show ?thesis
      by (auto simp: phrasesOf_def m a d split: option.splits)
  qed
  show "fst ` set (userPatterns (addCorrectionPattern s oldText oldCommand newText newCommand)) =
       insert (Str newCommand) (fst ` set (userPatterns s))"
  proof -
    have k1: "\<And>(m :: (jsval \<times> jsstring list) list) k v.
                fst ` set (Map_set m k v) = insert k (fst ` set m)"
      by (simp add: Map_set_def dom_update)
    have k2: "fst ` set (userPatterns ?s1) = fst ` set (userPatterns s)"
      by (force simp: image_iff)
    show ?thesis
      unfolding ups userPatterns_learn k1 k2 by simp
  qed
  show "p \<noteq> trim (toLowerCase newText) \<longrightarrow>
        map_of (learnedCommands (addCorrectionPattern s oldText oldCommand newText newCommand)) p =
        map_of (learnedCommands s) p"
    by (simp add: lcs learnedCommands_learn)
  show "map_of (learnedCommands (addCorrectionPattern s oldText oldCommand newText newCommand))
         (trim (toLowerCase newText)) = map_of (learnedCommands s) (trim (toLowerCase newText))
       \<or> map_of (learnedCommands (addCorrectionPattern s oldText oldCommand newText newCommand))
         (trim (toLowerCase newText)) = Some (Str newCommand)"
    by (simp add: lcs learnSuccessfulPattern_def saveUserLearning_def Let_def Map_set_def
        update_conv')
qed

theorem correction_frame_witness:
  "phrasesOf (addCorrectionPattern learning_with_promotion (js '' GO '') (js ''attack'')
               (js ''Charge'') (js ''attack'')) (Str (js ''defend'')) = {js ''hold''}
   \<and> phrasesOf (addCorrectionPattern learning_with_promotion (js '' GO '') (js ''attack'')
               (js ''Charge'') (js ''attack'')) (Str (js ''attack'')) =
       {js ''charge'', js ''fire'', js ''shoot''}
   \<and> js ''go'' \<noteq> trim (toLowerCase (js ''Charge''))
   \<and> map_of (learnedCommands (addCorrectionPattern learning_with_promotion (js '' GO '')
               (js ''attack'') (js ''Charge'') (js ''attack''))) (js ''go'') =
       Some (Str (js ''attack''))"
proof -
  have h: "js ''go'' \<noteq> trim (toLowerCase (js ''Charge''))"
    by code_simp
  have p1: "phrasesOf learning_with_promotion (Str (js ''defend'')) - {trim (toLowerCase (js '' GO ''))}
            = {js ''hold''}"
    by code_simp
  have p2: "insert (trim (toLowerCase (js ''Charge'')))
              (phrasesOf learning_with_promotion (Str (js ''attack''))
                 - {trim (toLowerCase (js '' GO ''))})
            = {js ''charge'', js ''fire'', js ''shoot''}"
    by code_simp
  have p3: "map_of (learnedCommands learning_with_promotion) (js ''go'') = Some (Str (js ''attack''))"
    by code_simp
  have d: "Str (js ''defend'') \<noteq> Str (js ''attack'')"
    by code_simp
  from correction_frame [of learning_with_promotion "js '' GO ''" "js ''attack''"
      "js ''Charge''" "js ''attack''" "Str (js ''defend'')" "js ''go''"]
    correction_frame [of learning_with_promotion "js '' GO ''" "js ''attack''"
      "js ''Charge''" "js ''attack''" "Str (js ''attack'')" "js ''go''"]
    h p1 p2 p3 d
  show ?thesis
    by simp
qed

section \<open>Properties of the confirmation system\<close>

text \<open>
  C3. With the threshold of the constructor, a confidence equal to the applicable
  threshold needs no confirmation, and every confidence below it needs one.
\<close>

theorem threshold_boundary:
  assumes "confidenceThreshold s = 6 / 10"
  shows "\<not> shouldConfirm s command originalText (applicableThreshold command originalText)
       \<and> (confidence < applicableThreshold command originalText \<longrightarrow>
            shouldConfirm s command originalText confidence)"
  using assms by (simp add: shouldConfirm_def applicableThreshold_def)

theorem threshold_boundary_witness:
  "confidenceThreshold newConfirmationSystem = 6 / 10
   \<and> applicableThreshold (js ''retreat'') (js ''please retreat right now'') = 8 / 10
   \<and> \<not> shouldConfirm newConfirmationSystem (js ''retreat'') (js ''please retreat right now'')
        (8 / 10)
   \<and> (79 / 100 :: rat) < 8 / 10
   \<and> shouldConfirm newConfirmationSystem (js ''retreat'') (js ''please retreat right now'')
        (79 / 100)"
proof -
  have h: "confidenceThreshold newConfirmationSystem = 6 / 10"
    by (simp add: newConfirmationSystem_def)
  have a: "applicableThreshold (js ''retreat'') (js ''please retreat right now'') = 8 / 10"
    by code_simp
  have l: "(79 / 100 :: rat) < 8 / 10"
    by simp
  from threshold_boundary [OF h, of "js ''retreat''" "js ''please retreat right now''" "79 / 100"]
    h a l
  show ?thesis
    by simp
qed

subsection \<open>The timeout\<close>

lemma effects_emit [simp]: "effects (emit e s) = effects s @ [e]"
  and timers_emit [simp]: "timers (emit e s) = timers s"
  and confirmationTimeout_emit [simp]: "confirmationTimeout (emit e s) = confirmationTimeout s"
  and pendingConfirmation_emit [simp]: "pendingConfirmation (emit e s) = pendingConfirmation s"
  and now_emit [simp]: "now (emit e s) = now s"
  and nextHandle_emit [simp]: "nextHandle (emit e s) = nextHandle s"
  by (simp_all add: emit_def)

lemma wf_confirmation_emit [simp]: "wf_confirmation (emit e s) = wf_confirmation s"
  by (simp add: wf_confirmation_def)

lemma only_stored_timer:
  "wf_confirmation s \<Longrightarrow> confirmationTimeout s = Some h \<Longrightarrow>
   filter (\<lambda>(h', due). h' \<noteq> h) (timers s) = []"
  by (auto simp: wf_confirmation_def list_all_iff filter_empty_conv)

lemma no_stored_timer:
  "wf_confirmation s \<Longrightarrow> confirmationTimeout s = None \<Longrightarrow> timers s = []"
  by (cases "timers s") (auto simp: wf_confirmation_def)

lemma clear_cancels:
  assumes "wf_confirmation s"
  shows "pendingConfirmation (clearPendingConfirmation s) = None
       \<and> confirmationTimeout (clearPendingConfirmation s) = None
       \<and> timers (clearPendingConfirmation s) = []
       \<and> effects (clearPendingConfirmation s) = effects s @ [HideConfirmationUI]
       \<and> now (clearPendingConfirmation s) = now s
       \<and> nextHandle (clearPendingConfirmation s) = nextHandle s"
  using assms
  by (auto simp: clearPendingConfirmation_def clearTimeout_def only_stored_timer no_stored_timer
      split: option.splits)

lemma idle_timeout_noop:
  "pendingConfirmation s = None \<Longrightarrow> handleConfirmationTimeout s = s"
  by (simp add: handleConfirmationTimeout_def)

lemma no_timer_cannot_fire: "timers s = [] \<Longrightarrow> timerFires h s = s"
  by (simp add: timerFires_def)

lemma request_sets_timer:
  assumes "wf_confirmation s"
  shows "pendingConfirmation (requestConfirmation s command originalText confidence onC onR) =
           Some \<lparr>p_command = command, p_originalText = originalText, p_confidence = confidence,
                 p_onConfirmed = onC, p_onRejected = onR, p_timestamp = now s\<rparr>
       \<and> confirmationTimeout (requestConfirmation s command originalText confidence onC onR) =
           Some (nextHandle s)
       \<and> timers (requestConfirmation s command originalText confidence onC onR) =
           [(nextHandle s, now s + 10000)]
       \<and> now (requestConfirmation s command originalText confidence onC onR) = now s"
  using clear_cancels [OF assms]
  by (simp add: requestConfirmation_def setTimeout_def Let_def)

lemma wf_confirmation_request:
  "wf_confirmation s \<Longrightarrow>
   wf_confirmation (requestConfirmation s command originalText confidence onC onR)"
  using request_sets_timer [of s command originalText confidence onC onR]
  by (simp add: wf_confirmation_def)

text \<open>The invariant holds of a new system and is kept by every response and timer.\<close>

lemma wf_confirmation_new: "wf_confirmation newConfirmationSystem"
  by (simp add: wf_confirmation_def newConfirmationSystem_def)

lemma wf_confirmation_clear:
  "wf_confirmation s \<Longrightarrow> wf_confirmation (clearPendingConfirmation s)"
  using clear_cancels [of s] by (simp add: wf_confirmation_def)

lemma wf_confirmation_unknown:
  assumes "wf_confirmation s"
  shows "wf_confirmation (handleUnknownResponse s r)"
  using assms
  by (auto simp: handleUnknownResponse_def Let_def setTimeout_def clearTimeout_def
      wf_confirmation_def only_stored_timer [unfolded wf_confirmation_def]
      split: option.splits)

lemma wf_confirmation_response:
  assumes "wf_confirmation s"
  shows "wf_confirmation (snd (handleConfirmationResponse h s r))"
  using assms wf_confirmation_unknown [OF assms, of r]
  by (auto simp: handleConfirmationResponse_def confirmCommand_def rejectCommand_def
      retryCommand_def replaceCommand_def Let_def wf_confirmation_clear
      split: option.splits jsval.splits)

lemma wf_confirmation_fires:
  assumes "wf_confirmation s"
  shows "wf_confirmation (timerFires h s)"
proof -
  have c: "wf_confirmation (clearTimeout h s)"
    using assms by (auto simp: wf_confirmation_def clearTimeout_def list_all_iff)
  show ?thesis
    using assms c
    by (auto simp: timerFires_def handleConfirmationTimeout_def rejectCommand_def Let_def
        wf_confirmation_clear split: option.splits)
qed

lemma due_timer_rejects:
  assumes "wf_confirmation s1"
      and "pendingConfirmation s1 = Some p"
      and "confirmationTimeout s1 = Some h"
      and "timers s1 = [(h, due)]"
      and "due \<le> now s1"
  shows "pendingConfirmation (timerFires h s1) = None
       \<and> confirmationTimeout (timerFires h s1) = None
       \<and> timers (timerFires h s1) = []
       \<and> effects (timerFires h s1) =
           effects s1 @ [HideConfirmationUI]
             @ (if p_onRejected p then [OnRejected (p_originalText p) msg_wrong_recognition] else [])
             @ [PlaySound (js ''error'') (3 / 10), HideConfirmationUI, SpeakAsSystem msg_timed_out]"
proof -
  let ?s = "clearTimeout h s1"
  have t: "timers ?s = []" and p: "pendingConfirmation ?s = Some p"
    and c: "confirmationTimeout ?s = Some h" and e: "effects ?s = effects s1"
    using assms by (simp_all add: clearTimeout_def)
  have wf: "wf_confirmation ?s"
    by (simp add: wf_confirmation_def t)
  have f: "timerFires h s1 = handleConfirmationTimeout ?s"
    using assms by (simp add: timerFires_def)
  let ?s3 = "emit (PlaySound (js ''error'') (3 / 10))
               (if p_onRejected p
                then emit (OnRejected (p_originalText p) msg_wrong_recognition)
                       (emit HideConfirmationUI ?s)
                else emit HideConfirmationUI ?s)"
  have wf3: "wf_confirmation ?s3"
    using wf by simp
  have r: "rejectCommand ?s = clearPendingConfirmation ?s3"
    by (simp add: rejectCommand_def p Let_def)
  show ?thesis
    using clear_cancels [OF wf3]
    by (simp add: f handleConfirmationTimeout_def p r e)
qed

lemma resolve_cancels:
  assumes "wf_confirmation s" and "pendingConfirmation s \<noteq> None"
      and "hasAddLearningPattern h" and "hasAddCorrectionPattern h"
  shows "fst (resolve h r s) = Returns ()
       \<and> pendingConfirmation (snd (resolve h r s)) = None
       \<and> confirmationTimeout (snd (resolve h r s)) = None
       \<and> timers (snd (resolve h r s)) = []"
proof -
  from assms(2) obtain p where p: "pendingConfirmation s = Some p" by auto
  have wf: "\<And>s'. wf_confirmation s' \<Longrightarrow>
      pendingConfirmation (clearPendingConfirmation s') = None
      \<and> confirmationTimeout (clearPendingConfirmation s') = None
      \<and> timers (clearPendingConfirmation s') = []"
    using clear_cancels by blast
  show ?thesis
  proof (cases r)
    case Confirmed
    then show ?thesis
      using assms p by (simp add: confirmCommand_def Let_def wf)
  next
    case Rejected
    then show ?thesis
      using assms p by (simp add: rejectCommand_def Let_def wf)
  next
    case (Replaced newCommand newText)
    then show ?thesis
      using assms p by (simp add: replaceCommand_def Let_def wf)
  next
    case Retried
    then show ?thesis
      using assms p by (simp add: retryCommand_def Let_def wf)
  next
    case TimedOut
    then show ?thesis
      using assms p by (simp add: handleConfirmationTimeout_def rejectCommand_def Let_def wf)
  qed
qed

text \<open>
  C4. A request sets one timer, due 10000 ms later. Fired before it is due it does
  nothing; fired when due, with no response processed in between, it ends the pending
  confirmation as a rejection, with the rejection callback called once, and cancels
  itself. Every way of ending a pending confirmation leaves no timer set, and in a
  state without a timer or without a pending confirmation a timeout changes nothing.
  The recogniser is one that has the two learning methods the system calls.
\<close>

theorem confirmation_timeout:
  assumes "wf_confirmation s"
      and "hasAddLearningPattern h" and "hasAddCorrectionPattern h"
      and "wf_confirmation s'" and "pendingConfirmation s' \<noteq> None"
  shows "timers (requestConfirmation s command originalText confidence onC True) =
           [(nextHandle s, now s + 10000)]
       \<and> (d < 10000 \<longrightarrow>
            timerFires (nextHandle s)
              (tick d (requestConfirmation s command originalText confidence onC True)) =
            tick d (requestConfirmation s command originalText confidence onC True))
       \<and> (10000 \<le> d \<longrightarrow>
            pendingConfirmation (timerFires (nextHandle s)
              (tick d (requestConfirmation s command originalText confidence onC True))) = None
          \<and> timers (timerFires (nextHandle s)
              (tick d (requestConfirmation s command originalText confidence onC True))) = []
          \<and> effects (timerFires (nextHandle s)
              (tick d (requestConfirmation s command originalText confidence onC True))) =
              effects (requestConfirmation s command originalText confidence onC True)
                @ [HideConfirmationUI, OnRejected originalText msg_wrong_recognition,
                   PlaySound (js ''error'') (3 / 10), HideConfirmationUI,
                   SpeakAsSystem msg_timed_out]
          \<and> timerFires h' (timerFires (nextHandle s)
              (tick d (requestConfirmation s command originalText confidence onC True))) =
              timerFires (nextHandle s)
                (tick d (requestConfirmation s command originalText confidence onC True)))
       \<and> fst (resolve h r s') = Returns ()
       \<and> pendingConfirmation (snd (resolve h r s')) = None
       \<and> confirmationTimeout (snd (resolve h r s')) = None
       \<and> timers (snd (resolve h r s')) = []
       \<and> timerFires h' (snd (resolve h r s')) = snd (resolve h r s')
       \<and> handleConfirmationTimeout (snd (resolve h r s')) = snd (resolve h r s')"
proof -
  let ?s1 = "requestConfirmation s command originalText confidence onC True"
  note rq = request_sets_timer [OF assms(1), of command originalText confidence onC True]
  have wf1: "wf_confirmation (tick d ?s1)"
    using wf_confirmation_request [OF assms(1), of command originalText confidence onC True]
    by (simp add: wf_confirmation_def tick_def)
  have early: "d < 10000 \<Longrightarrow> timerFires (nextHandle s) (tick d ?s1) = tick d ?s1"
    using rq by (simp add: timerFires_def tick_def)
  have late: "pendingConfirmation (timerFires (nextHandle s) (tick d ?s1)) = None
       \<and> confirmationTimeout (timerFires (nextHandle s) (tick d ?s1)) = None
       \<and> timers (timerFires (nextHandle s) (tick d ?s1)) = []
       \<and> effects (timerFires (nextHandle s) (tick d ?s1)) =
           effects ?s1 @ [HideConfirmationUI, OnRejected originalText msg_wrong_recognition,
                          PlaySound (js ''error'') (3 / 10), HideConfirmationUI,
                          SpeakAsSystem msg_timed_out]"
    if "10000 \<le> d"
    using due_timer_rejects [OF wf1, of _ "nextHandle s" "now s + 10000"] rq that
    by (simp add: tick_def)
  note rs = resolve_cancels [OF assms(4) assms(5) assms(2) assms(3), of r]
  show ?thesis
    using rq early late rs
    by (simp add: no_timer_cannot_fire idle_timeout_noop)
qed

theorem confirmation_timeout_witness:
  "wf_confirmation newConfirmationSystem
   \<and> hasAddLearningPattern (advancedHost recognisesNothing)
   \<and> hasAddCorrectionPattern (advancedHost recognisesNothing)
   \<and> wf_confirmation pending_attack \<and> pendingConfirmation pending_attack \<noteq> None
   \<and> timers pending_attack = [(1, 10000)]
   \<and> timerFires 1 (tick 9999 pending_attack) = tick 9999 pending_attack
   \<and> effects (timerFires 1 (tick 10000 pending_attack)) =
       effects pending_attack
         @ [HideConfirmationUI, OnRejected [0x653B, 0x6483] msg_wrong_recognition,
            PlaySound (js ''error'') (3 / 10), HideConfirmationUI, SpeakAsSystem msg_timed_out]
   \<and> timerFires 1 (timerFires 1 (tick 10000 pending_attack)) =
       timerFires 1 (tick 10000 pending_attack)
   \<and> timers (snd (resolve (advancedHost recognisesNothing) Confirmed pending_attack)) = []
   \<and> timerFires 1 (snd (resolve (advancedHost recognisesNothing) Confirmed pending_attack)) =
       snd (resolve (advancedHost recognisesNothing) Confirmed pending_attack)"
proof -
  have h1: "wf_confirmation newConfirmationSystem"
    by code_simp
  have h2: "hasAddLearningPattern (advancedHost recognisesNothing)"
    and h3: "hasAddCorrectionPattern (advancedHost recognisesNothing)"
    by (simp_all add: advancedHost_def)
  have h4: "wf_confirmation pending_attack"
    by code_simp
  have h5: "pendingConfirmation pending_attack \<noteq> None"
    by code_simp
  have n: "nextHandle newConfirmationSystem = 1" "now newConfirmationSystem = 0"
    by (simp_all add: newConfirmationSystem_def)
  from confirmation_timeout [OF h1 h2 h3 h4 h5, of "js ''attack''" "[0x653B, 0x6483]" "55 / 100"
      True 9999 1 Confirmed, folded pending_attack_def]
    confirmation_timeout [OF h1 h2 h3 h4 h5, of "js ''attack''" "[0x653B, 0x6483]" "55 / 100"
      True 10000 1 Confirmed, folded pending_attack_def]
    h1 h2 h3 h4 h5
  show ?thesis
    by (simp add: n)
qed

subsection \<open>Responses\<close>

lemma canonicalize_high:
  "canonicalize c = d \<Longrightarrow> 0x7A < d \<Longrightarrow> c = d"
  by (auto simp: canonicalize_def split: if_splits) unat_arith

lemma retry_first:
  assumes "phraseTest confirmationPhrases_retry r"
  shows "\<exists>c cs. r = c # cs \<and> c \<in> {0x3082, 0x3084, 0x30EA, 0x518D}"
proof (cases r)
  case Nil
  with assms show ?thesis
    by (simp add: phraseTest_def confirmationPhrases_retry_def)
next
  case (Cons c cs)
  with assms have "canonicalize c \<in> {0x3082, 0x3084, 0x30EA, 0x518D}"
    by (auto simp: phraseTest_def confirmationPhrases_retry_def
        canonicalize_def [of "numeral n" for n])
  then have "c \<in> {0x3082, 0x3084, 0x30EA, 0x518D}"
    by (auto dest!: canonicalize_high)
  with Cons show ?thesis by simp
qed

lemma retry_excludes_yes_no:
  assumes "phraseTest confirmationPhrases_retry r"
  shows "\<not> phraseTest confirmationPhrases_yes r \<and> \<not> phraseTest confirmationPhrases_no r"
proof -
  from retry_first [OF assms] obtain c cs where r: "r = c # cs"
    and c: "c \<in> {0x3082, 0x3084, 0x30EA, 0x518D}" by blast
  from c have cc: "canonicalize c = c"
    by (auto simp: canonicalize_def)
  show ?thesis
    using c unfolding r phraseTest_def confirmationPhrases_yes_def confirmationPhrases_no_def
    by (auto simp: cc js_def canonicalize_def [of "numeral n" for n])
qed

text \<open>
  On the pipeline of \<open>UnifiedVoiceRecognition\<close> nothing requests a confirmation, so
  the system it constructs never has one pending: every result is handled to its end
  and leaves the system as it was.
\<close>

lemma unified_matchAndDispatch_system [simp]:
  "u_confirmationSystem (unified_matchAndDispatch u t c) = u_confirmationSystem u"
  by (simp add: unified_matchAndDispatch_def unified_handleUnrecognizedInput_def
      unified_requestConfirmationWithSystem_def unified_learnSuccessfulPattern_def
      unified_executeCommand_def unified_queueCommands_def Let_def split: list.splits)



text \<open>
  Were \<open>handleConfirmationResponse\<close> called on that system with a confirmation
  pending, which the program never does, the call of \<open>parseCommand\<close> would throw.
\<close>

lemma unified_direct_call_throws:
  "handleConfirmationResponse unifiedHost pending_attack eeto = (Throws TypeError, pending_attack)"
  by code_simp



text \<open>
  A pending confirmation has its timer: a request sets both, an unknown response sets
  a new timer, and everything that clears the one clears the other.
\<close>

lemma pending_has_timer_request:
  "wf_confirmation s \<Longrightarrow>
   confirmationTimeout (requestConfirmation s command originalText confidence onC onR) \<noteq> None"
  using request_sets_timer [of s command originalText confidence onC onR] by simp

lemma pending_has_timer_fires:
  assumes "wf_confirmation s"
      and "pendingConfirmation s \<noteq> None \<longrightarrow> confirmationTimeout s \<noteq> None"
  shows "pendingConfirmation (timerFires h s) \<noteq> None \<longrightarrow>
         confirmationTimeout (timerFires h s) \<noteq> None"
proof (cases "timerFires h s = s")
  case True
  with assms show ?thesis by simp
next
  case False
  then obtain due where "timerFires h s = handleConfirmationTimeout (clearTimeout h s)"
    by (auto simp: timerFires_def split: option.splits if_splits)
  moreover have "wf_confirmation (clearTimeout h s)"
    using assms(1) by (auto simp: wf_confirmation_def clearTimeout_def list_all_iff)
  ultimately show ?thesis
    using assms(2) clear_cancels
    by (auto simp: handleConfirmationTimeout_def rejectCommand_def clearTimeout_def Let_def
        split: option.splits)
qed



text \<open>
  C6, as amended. A response that matches the retry phrases ends the pending
  confirmation: the overlay is hidden, the request to say it again is spoken, and the
  confirmation is cleared and its timer cancelled, so that no timer is left to fire.
  Neither callback is called, so no command is executed, and the recogniser is not
  called, so nothing is learned.
\<close>

theorem retry_discards:
  assumes "wf_confirmation s"
      and "pendingConfirmation s = Some p"
      and "phraseTest confirmationPhrases_retry (toLowerCase responseText)"
  shows "fst (handleConfirmationResponse h s responseText) = Returns True
       \<and> pendingConfirmation (snd (handleConfirmationResponse h s responseText)) = None
       \<and> confirmationTimeout (snd (handleConfirmationResponse h s responseText)) = None
       \<and> timers (snd (handleConfirmationResponse h s responseText)) = []
       \<and> effects (snd (handleConfirmationResponse h s responseText)) =
           effects s @ [HideConfirmationUI, SpeakAsSystem msg_please_repeat, HideConfirmationUI]"
proof -
  let ?s2 = "emit (SpeakAsSystem msg_please_repeat) (emit HideConfirmationUI s)"
  have wf: "wf_confirmation ?s2"
    using assms(1) by simp
  have r: "handleConfirmationResponse h s responseText =
           (Returns True, clearPendingConfirmation ?s2)"
    using assms(2,3) retry_excludes_yes_no [OF assms(3)]
    by (simp add: handleConfirmationResponse_def retryCommand_def Let_def)
  show ?thesis
    using clear_cancels [OF wf] by (simp add: r)
qed

theorem retry_discards_witness:
  "wf_confirmation pending_attack
   \<and> pendingConfirmation pending_attack \<noteq> None
   \<and> timers pending_attack = [(1, 10000)]
   \<and> phraseTest confirmationPhrases_retry (toLowerCase mou_ichido)
   \<and> fst (handleConfirmationResponse (advancedHost recognisesNothing) pending_attack mou_ichido) =
       Returns True
   \<and> timers (snd (handleConfirmationResponse (advancedHost recognisesNothing) pending_attack
                   mou_ichido)) = []
   \<and> effects (snd (handleConfirmationResponse (advancedHost recognisesNothing) pending_attack
                    mou_ichido)) =
       effects pending_attack
         @ [HideConfirmationUI, SpeakAsSystem msg_please_repeat, HideConfirmationUI]"
proof -
  have h0: "wf_confirmation pending_attack"
    by code_simp
  obtain p where h1: "pendingConfirmation pending_attack = Some p"
    by (simp add: pending_attack_def requestConfirmation_def setTimeout_def Let_def)
  have t: "timers pending_attack = [(1, 10000)]"
    by (simp add: pending_attack_def requestConfirmation_def setTimeout_def Let_def
        clearPendingConfirmation_def emit_def newConfirmationSystem_def)
  have h2: "phraseTest confirmationPhrases_retry (toLowerCase mou_ichido)"
    by code_simp
  from retry_discards [OF h0 h1 h2, of "advancedHost recognisesNothing"] h0 h1 h2 t show ?thesis
    by simp
qed

text \<open>
  C6 as stated fails: the pending confirmation was given a rejection callback, the
  response mou ichido matches the retry phrases, and the rejection callback is not
  among the calls made.
\<close>

theorem retry_callback_counterexample:
  "map_option p_onRejected (pendingConfirmation pending_attack) = Some True
   \<and> phraseTest confirmationPhrases_retry (toLowerCase mou_ichido)
   \<and> filter isOnRejected
       (effects (snd (handleConfirmationResponse (advancedHost recognisesNothing) pending_attack
                        mou_ichido))) = []"
  by code_simp

section \<open>Properties of the command queue\<close>

lemma combo_attack_then_defend:
  "comboCheck naturalLanguagePatterns (toLowerCase kougeki_shite_kara_bougyo) =
     Some [js ''attack'', js ''defend'']"
  by code_simp

text \<open>
  C9. Unless a learned pattern answers first, the transcript kougeki shite kara bougyo
  is matched by the compound-phrase check to attack, defend. Queued on an idle
  sequencer with the delay of the constructor, attack is dispatched at once and one
  wait of 1000 ms is set; the wait does nothing before it is due, and when it resolves
  defend is dispatched and the queue is done. The outcome the game gives for attack is
  any: it is not read.
\<close>

theorem attack_then_defend:
  assumes "\<not> truthy (checkLearnedPatterns (learnedCommands l) kougeki_shite_kara_bougyo)"
      and "commandQueue s = []" and "\<not> processingQueue s" and "waiting s = []"
      and "queueProcessingDelay s = 1000" and "onCommand s = Some game"
  shows "comboCheck naturalLanguagePatterns (toLowerCase kougeki_shite_kara_bougyo) =
           Some [js ''attack'', js ''defend'']
       \<and> parseAdvancedCommand l kougeki_shite_kara_bougyo = [js ''attack'', js ''defend'']
       \<and> onCommandCalls (queueCommands s [js ''attack'', js ''defend''] text) =
           onCommandCalls s
             @ [(time s, js ''attack'', text, game (js ''attack'') text),
                (time s, js ''queue'', msg_queued @ js ''attack'' @ msg_arrow @ js ''defend'',
                 game (js ''queue'') (msg_queued @ js ''attack'' @ msg_arrow @ js ''defend''))]
       \<and> waiting (queueCommands s [js ''attack'', js ''defend''] text) = [time s + 1000]
       \<and> (d < 1000 \<longrightarrow>
            waitResolves (advance d (queueCommands s [js ''attack'', js ''defend''] text)) =
            advance d (queueCommands s [js ''attack'', js ''defend''] text))
       \<and> (1000 \<le> d \<longrightarrow>
            onCommandCalls
              (waitResolves (advance d (queueCommands s [js ''attack'', js ''defend''] text))) =
              onCommandCalls (queueCommands s [js ''attack'', js ''defend''] text)
                @ [(time s + d, js ''defend'', text, game (js ''defend'') text)]
          \<and> commandQueue
              (waitResolves (advance d (queueCommands s [js ''attack'', js ''defend''] text))) = []
          \<and> waiting
              (waitResolves (advance d (queueCommands s [js ''attack'', js ''defend''] text))) = []
          \<and> \<not> processingQueue
              (waitResolves (advance d (queueCommands s [js ''attack'', js ''defend''] text))))"
proof -
  have parse: "parseAdvancedCommand l kougeki_shite_kara_bougyo = [js ''attack'', js ''defend'']"
    using assms(1) by (simp add: parseAdvancedCommand_def combo_attack_then_defend)
  show ?thesis
    using assms(2-6)
    by (simp add: parse combo_attack_then_defend queueCommands_def processCommandQueue_def
        queueLoop_def executeCommand_def callOnCommand_def waitResolves_def advance_def Let_def)
qed

theorem attack_then_defend_witness:
  "\<not> truthy (checkLearnedPatterns (learnedCommands emptyLearning) kougeki_shite_kara_bougyo)
   \<and> commandQueue (newSequencer (Some refusesAll)) = []
   \<and> \<not> processingQueue (newSequencer (Some refusesAll))
   \<and> waiting (newSequencer (Some refusesAll)) = []
   \<and> queueProcessingDelay (newSequencer (Some refusesAll)) = 1000
   \<and> onCommand (newSequencer (Some refusesAll)) = Some refusesAll
   \<and> parseAdvancedCommand emptyLearning kougeki_shite_kara_bougyo = [js ''attack'', js ''defend'']
   \<and> waitResolves (advance 999 (queueCommands (newSequencer (Some refusesAll))
        [js ''attack'', js ''defend''] kougeki_shite_kara_bougyo)) =
       advance 999 (queueCommands (newSequencer (Some refusesAll))
        [js ''attack'', js ''defend''] kougeki_shite_kara_bougyo)
   \<and> map (\<lambda>(t, command, originalText, outcome). (t, command))
       (onCommandCalls (waitResolves (advance 1000 (queueCommands (newSequencer (Some refusesAll))
          [js ''attack'', js ''defend''] kougeki_shite_kara_bougyo)))) =
       [(0, js ''attack''), (0, js ''queue''), (1000, js ''defend'')]"
proof -
  have h1: "\<not> truthy (checkLearnedPatterns (learnedCommands emptyLearning)
                        kougeki_shite_kara_bougyo)"
    by code_simp
  have h2: "commandQueue (newSequencer (Some refusesAll)) = []"
    and h3: "\<not> processingQueue (newSequencer (Some refusesAll))"
    and h4: "waiting (newSequencer (Some refusesAll)) = []"
    and h5: "queueProcessingDelay (newSequencer (Some refusesAll)) = 1000"
    and h6: "onCommand (newSequencer (Some refusesAll)) = Some refusesAll"
    and t: "time (newSequencer (Some refusesAll)) = 0"
    and c: "onCommandCalls (newSequencer (Some refusesAll)) = []"
    by (simp_all add: newSequencer_def)
  from attack_then_defend [OF h1 h2 h3 h4 h5 h6, of kougeki_shite_kara_bougyo 999]
    attack_then_defend [OF h1 h2 h3 h4 h5 h6, of kougeki_shite_kara_bougyo 1000]
    h1 h2 h3 h4 h5 h6
  show ?thesis
    by (simp add: t c)
qed

section \<open>Properties of the audio queue\<close>

lemma audioLoop_invariant:
  "audioQueue s = [] \<Longrightarrow> inFlight s = [] \<Longrightarrow> whisperInvariant (audioLoop s)"
  by (simp add: audioLoop_def whisperInvariant_def)

lemma audioLoop_one:
  "audioQueue s = [item] \<Longrightarrow> inFlight s = [] \<Longrightarrow> isProcessing s \<Longrightarrow>
   whisperInvariant (audioLoop s)"
  by (simp add: audioLoop_def whisperInvariant_def Let_def)

lemma whisperStep_invariant:
  assumes "whisperInvariant s" and "e = Cleanup \<longrightarrow> inFlight s = []"
  shows "whisperInvariant (whisperStep s e)"
proof (cases e)
  case (SpeechEnd audioData duration)
  show ?thesis
  proof (cases "\<not> isListening s \<or> isProcessing s")
    case True
    with assms(1) SpeechEnd show ?thesis
      by (simp add: processAudioData_def)
  next
    case False
    with assms(1) have "inFlight s = []" and "audioQueue s = []"
      by (auto simp: whisperInvariant_def)
    with False SpeechEnd show ?thesis
      by (simp add: processAudioData_def processQueuedAudio_def audioLoop_one)
  qed
next
  case (TranscriptionSettles result)
  show ?thesis
  proof (cases "inFlight s")
    case Nil
    with assms(1) TranscriptionSettles show ?thesis by simp
  next
    case (Cons audioData rest)
    with assms(1) have "rest = []" and "audioQueue s = []"
      by (auto simp: whisperInvariant_def)
    with Cons TranscriptionSettles show ?thesis
      by (auto simp: transcribed_def intro!: audioLoop_invariant split: transcription.splits)
  qed
qed (use assms in \<open>auto simp: whisperInvariant_def\<close>)

lemma whisperInvariant_foldl:
  "whisperInvariant s \<Longrightarrow> cleanupWhenIdle s events \<Longrightarrow>
   whisperInvariant (foldl whisperStep s events)"
  by (induction events arbitrary: s) (simp_all add: whisperStep_invariant)

text \<open>
  C8, as amended. After any sequence of events on a new engine in which \<open>cleanup\<close>
  is not called during a transcription, at most one call of \<open>transcribe\<close> is
  unsettled and no utterance waits in the queue; an utterance that ends while a
  transcription is in progress is dropped, the engine staying as it is.
\<close>

theorem transcription_serialized:
  assumes "cleanupWhenIdle newWhisperWASMEngine events"
  shows
  "length (inFlight (whisperRun events)) \<le> 1
   \<and> audioQueue (whisperRun events) = []
   \<and> (isProcessing (whisperRun events) \<longleftrightarrow> inFlight (whisperRun events) \<noteq> [])
   \<and> (isProcessing (whisperRun events) \<longrightarrow>
        processAudioData (whisperRun events) audioData duration = whisperRun events)"
proof -
  have "whisperInvariant newWhisperWASMEngine"
    by (simp add: whisperInvariant_def newWhisperWASMEngine_def)
  then have "whisperInvariant (whisperRun events)"
    unfolding whisperRun_def using assms by (rule whisperInvariant_foldl)
  then show ?thesis
    by (simp add: whisperInvariant_def processAudioData_def)
qed

theorem transcription_serialized_witness:
  "cleanupWhenIdle newWhisperWASMEngine [Init, Cleanup, Init, Start True, SpeechEnd utterance1 900]
   \<and> isProcessing transcribing_first
   \<and> inFlight transcribing_first = [utterance1]
   \<and> processAudioData transcribing_first utterance2 700 = transcribing_first"
proof -
  have c: "cleanupWhenIdle newWhisperWASMEngine
             [Init, Cleanup, Init, Start True, SpeechEnd utterance1 900]"
    by (simp add: newWhisperWASMEngine_def)
  have h: "isProcessing transcribing_first"
    by (simp add: transcribing_first_def whisperRun_def processAudioData_def
        processQueuedAudio_def audioLoop_def newWhisperWASMEngine_def Let_def)
  have i: "inFlight transcribing_first = [utterance1]"
    by (simp add: transcribing_first_def whisperRun_def processAudioData_def
        processQueuedAudio_def audioLoop_def newWhisperWASMEngine_def Let_def)
  from transcription_serialized [OF c, of utterance2 700, folded transcribing_first_def] c h i
  show ?thesis
    by simp
qed

text \<open>
  C8 as stated fails: the second utterance ends while the first is being transcribed;
  it is not put in the queue, and after the first transcription has settled the only
  call of \<open>transcribe\<close> ever made is the one for the first.
\<close>

theorem overlapping_utterance_counterexample:
  "isProcessing transcribing_first
   \<and> audioQueue (processAudioData transcribing_first utterance2 700) = []
   \<and> transcribeCalls
       (whisperRun [Init, Cleanup, Init, Start True, SpeechEnd utterance1 900,
                    SpeechEnd utterance2 700,
                    TranscriptionSettles (Transcript [0x653B, 0x6483] (9 / 10)), Elapse 60000]) =
       [utterance1]"
  by (simp add: transcribing_first_def whisperRun_def processAudioData_def
      processQueuedAudio_def audioLoop_def transcribed_def newWhisperWASMEngine_def Let_def)

text \<open>
  Outside such runs the flag says nothing: \<open>cleanup\<close> lowers it during the first
  transcription, and after a new \<open>init\<close> and \<open>start\<close> the next utterance is handed to
  \<open>transcribe\<close> while the first call is unsettled.
\<close>

lemma cleanup_during_transcription:
  "inFlight (whisperRun [Init, Start True, SpeechEnd utterance1 900, Cleanup, Init, Start True,
                         SpeechEnd utterance2 700]) = [utterance1, utterance2]"
  by (simp add: whisperRun_def processAudioData_def processQueuedAudio_def audioLoop_def
      newWhisperWASMEngine_def Let_def)

end
